theory Spec2Isabelle
  imports Main "HOL-Library.Sublist"
begin

section \<open>JavaScript values and strings\<close>

text \<open>
  The worker receives JSON text on the websocket and in the \<open>arguments\<close> field of every
  tool call. A parsed value is a \<open>jsval\<close>; \<open>JUndefined\<close> is what reading an absent
  property yields. Numbers matter to the handler only through being zero or not.
  \<open>JObj\<close> lists the own properties of a parsed object (one entry per key).
\<close>

datatype jsval =
    JUndefined
  | JNull
  | JBool bool
  | JNum int
  | JStr string
  | JArr "jsval list"
  | JObj "(string \<times> jsval) list"

text \<open>The test \<open>if (!x)\<close> succeeds exactly on the values that are not \<open>truthy\<close>.\<close>

fun truthy :: "jsval \<Rightarrow> bool" where
  "truthy JUndefined = False"
| "truthy JNull = False"
| "truthy (JBool b) = b"
| "truthy (JNum n) = (n \<noteq> 0)"
| "truthy (JStr s) = (s \<noteq> [])"
| "truthy (JArr xs) = True"
| "truthy (JObj kvs) = True"

text \<open>
  Reading \<open>x.message\<close> or \<open>x.query\<close>: on \<open>null\<close> and \<open>undefined\<close> the engine throws a
  TypeError (\<open>Inl\<close> carries its message, as \<open>error.message\<close> reads it); on an object it is
  the property or \<open>undefined\<close>; on every other value it is \<open>undefined\<close>.
\<close>

definition cannot_read :: "string \<Rightarrow> string \<Rightarrow> string" where
  "cannot_read what k = ''Cannot read properties of '' @ what @ '' (reading '' @ [CHR 0x27] @ k @ [CHR 0x27] @ '')''"

fun get_prop :: "jsval \<Rightarrow> string \<Rightarrow> string + jsval" where
  "get_prop JUndefined k = Inl (cannot_read ''undefined'' k)"
| "get_prop JNull k = Inl (cannot_read ''null'' k)"
| "get_prop (JObj kvs) k = Inr (case map_of kvs k of None \<Rightarrow> JUndefined | Some x \<Rightarrow> x)"
| "get_prop x k = Inr JUndefined"

text \<open>
  A string is the list of its characters as bytes: ASCII text as it is, other text in
  UTF-8. \<open>includes_str s t\<close> is \<open>s.includes(t)\<close>; the worker calls it with ASCII keywords
  only, for which containment in the bytes is containment in the string.
\<close>

fun includes_str :: "string \<Rightarrow> string \<Rightarrow> bool" where
  "includes_str [] t = (t = [])"
| "includes_str (c # s) t = (prefix t (c # s) \<or> includes_str s t)"

text \<open>Decimal text of a status code, as a template literal prints it.\<close>

fun show_nat :: "nat \<Rightarrow> string" where
  "show_nat n =
     (if n < 10 then [''0123456789'' ! n]
      else show_nat (n div 10) @ [''0123456789'' ! (n mod 10)])"

declare show_nat.simps [simp del]

text \<open>
  What the runtime provides and the worker only calls:
  \<^item> \<open>JSON.parse\<close> (\<open>Inl\<close> is the message of the SyntaxError it throws);
  \<^item> the conversion to a string of a value that is not a string, inside a template
    literal or a \<open>+\<close> with a string: it throws a TypeError (\<open>Inl\<close> its message) where the
    value has no primitive form, as an object with an own property \<open>toString\<close> has none
    (nothing that \<open>JSON.parse\<close> builds is callable);
  \<^item> \<open>String.prototype.toUpperCase\<close>, which beyond the letters a to z also maps, for
    instance, U+017F to S, U+0131 to I and U+00DF to SS.
  \<open>greeting\<close> is the text of the frame that \<open>part_000\<close> sends when a connection opens.
\<close>

record platform =
  json_parse :: "string \<Rightarrow> string + jsval"
  to_string :: "jsval \<Rightarrow> string + string"
  to_upper :: "string \<Rightarrow> string"
  greeting :: string

text \<open>\<open>s.toUpperCase()\<close>: the runtime's; the empty string has no character to map.\<close>

definition toUpperCase :: "platform \<Rightarrow> string \<Rightarrow> string" where
  "toUpperCase P s = (if s = [] then [] else to_upper P s)"

text \<open>A value inside a template literal or added to a string: a string is itself.\<close>

definition template :: "platform \<Rightarrow> jsval \<Rightarrow> string + string" where
  "template P x = (case x of JStr s \<Rightarrow> Inr s | _ \<Rightarrow> to_string P x)"

text \<open>
  The repository holds the worker twice: \<open>index.js\<close> and \<open>part_000\<close>, a copy that takes the
  base URL of the data-access backend from the environment. For the session the two differ
  in four places: the frame sent when the connection opens, the echo of the user message,
  the progress text of a tool call and the message of a completion status that is not ok.
\<close>

datatype variant = Index_js | Part_000

section \<open>The query router: \<open>callSqlApi\<close>\<close>

datatype endpoint = Query_Endpoint | Mutate_Endpoint

text \<open>
  \<open>callSqlApi\<close> up to its \<open>fetch\<close>: either it posts \<open>{query}\<close> to an endpoint, or it returns
  a value without any request.
\<close>

datatype sql_call = Posts endpoint string | Returns jsval

definition callSqlApi :: "platform \<Rightarrow> string \<Rightarrow> sql_call" where
  "callSqlApi P query =
     (let upperQuery = toUpperCase P query in
      if includes_str upperQuery ''SELECT'' then Posts Query_Endpoint query
      else if includes_str upperQuery ''INSERT'' \<or>
              includes_str upperQuery ''UPDATE'' \<or>
              includes_str upperQuery ''DELETE'' then Posts Mutate_Endpoint query
      else Returns (JObj [(''error'', JStr ''Invalid query type'')]))"

text \<open>
  What comes back from the data-access backend: the exchange throws (transport fault or a
  body that is not JSON), the status is not ok, or the parsed body.
\<close>

datatype sql_response = Sql_Throws string | Sql_Status nat | Sql_Data jsval

definition callSqlApi_result :: "sql_response \<Rightarrow> jsval" where
  "callSqlApi_result r =
     (case r of
        Sql_Data data \<Rightarrow> data
      | Sql_Status status \<Rightarrow>
          JObj [(''error'', JStr (''API call error: '' @ ''HTTP error '' @ show_nat status))]
      | Sql_Throws m \<Rightarrow> JObj [(''error'', JStr (''API call error: '' @ m))])"

section \<open>Session state\<close>

record tool_call =
  call_id :: string
  function_name :: string
  function_arguments :: string

record assistant_message =
  content :: "string option"
  tool_calls :: "tool_call list option"

text \<open>
  \<open>Tool i result\<close> is the message \<open>{role: "tool", tool_call_id: i, content: resultStr}\<close>
  with \<open>resultStr = JSON.stringify(result)\<close>.
\<close>

datatype message =
    System string
  | User jsval
  | Assistant assistant_message
  | Tool string jsval

datatype frame = Progress string | Response "string option" | Error string

text \<open>
  One connection: \<open>messages\<close> is \<open>conversations.get(conversationId)\<close>, \<open>processing\<close> is
  \<open>processing.get(conversationId)\<close>, \<open>sent\<close> the frames given to \<open>serverWebSocket.send\<close>
  in order. The two logs record the requests issued to the completion backend (the
  \<open>messages\<close> of the body) and to the data-access backend.
\<close>

record conn =
  messages :: "message list"
  processing :: bool
  sent :: "frame list"
  completion_requests :: "message list list"
  sql_requests :: "(endpoint \<times> string) list"

definition send :: "frame \<Rightarrow> conn \<Rightarrow> conn" where
  "send f w = w\<lparr>sent := sent w @ [f]\<rparr>"

definition push :: "message \<Rightarrow> conn \<Rightarrow> conn" where
  "push m w = w\<lparr>messages := messages w @ [m]\<rparr>"

definition open_session :: "platform \<Rightarrow> variant \<Rightarrow> string \<Rightarrow> conn" where
  "open_session P v SYSTEM_PROMPT =
     \<lparr>messages = [System SYSTEM_PROMPT], processing = False,
      sent = (case v of Index_js \<Rightarrow> [] | Part_000 \<Rightarrow> [Error (greeting P)]),
      completion_requests = [], sql_requests = []\<rparr>"

section \<open>The message handler\<close>

text \<open>
  The handler is an \<open>async\<close> function: it runs until it awaits a backend and is resumed
  with the response, and between the two the runtime may run the handler of another
  inbound frame on the same connection. A \<open>task\<close> is a handler suspended at one of its two
  awaits, with the local variables it still needs: \<open>iteration\<close>, and inside the batch the
  content of the assistant message, the tool call being dispatched and the calls after
  it. The exchange with a backend (\<open>fetch\<close> and the reading of the body) is one
  suspension: the handler touches nothing of the session between the two.
\<close>

datatype task =
    Await_Completion nat
  | Await_Sql nat "string option" tool_call "tool_call list"

datatype outcome = Suspended task conn | Finished conn

text \<open>
  What comes back from the completion backend: the exchange throws (\<open>fetch\<close> rejects, the
  body is not JSON, \<open>choices[0]\<close> is missing), the status is not ok (with the text of the
  body), or \<open>choices[0].message\<close>, taken to have the shape of the backend's interface.
\<close>

datatype completion_result =
    Completion_Throws string
  | Completion_Status nat string
  | Completion_Reply assistant_message

definition maxIterations :: nat where
  "maxIterations = 10"

text \<open>After the \<open>while\<close> loop: the limit frame when the counter reached the ceiling, then
  \<open>processing.set(conversationId, false)\<close>.\<close>

definition after_loop :: "nat \<Rightarrow> conn \<Rightarrow> conn" where
  "after_loop iteration w =
     (let w1 = (if iteration \<ge> maxIterations
                then send (Error ''Reached maximum function call limit.'') w else w)
      in w1\<lparr>processing := False\<rparr>)"

text \<open>The loop test and, when it passes, the completion request with the current history.\<close>

definition while_loop :: "nat \<Rightarrow> conn \<Rightarrow> outcome" where
  "while_loop iteration w =
     (if iteration < maxIterations
      then Suspended (Await_Completion iteration)
             (w\<lparr>completion_requests := completion_requests w @ [messages w]\<rparr>)
      else Finished (after_loop iteration w))"

text \<open>The \<open>catch\<close> of the loop body: an error frame and \<open>break\<close>; the counter is as it was.\<close>

definition catch_inner :: "nat \<Rightarrow> string \<Rightarrow> conn \<Rightarrow> outcome" where
  "catch_inner iteration m w =
     Finished (after_loop iteration (send (Error (''DeepSeek API error: '' @ m)) w))"

text \<open>
  The progress text of a tool call: the content of the assistant message when it is
  truthy, otherwise a text made from the name; \<open>part_000\<close> adds the query to that text,
  and the conversion of a query that is not a string may throw (\<open>Inl\<close>).
\<close>

definition action_text :: "platform \<Rightarrow> variant \<Rightarrow> string \<Rightarrow> jsval \<Rightarrow> string + string" where
  "action_text P v functionName query =
     (case v of
        Index_js \<Rightarrow>
          Inr (if functionName = ''run_sql_query''
               then ''Querying data...'' else ''Updating data...'')
      | Part_000 \<Rightarrow>
          (case template P query of
             Inl e \<Rightarrow> Inl e
           | Inr text \<Rightarrow>
               Inr (if functionName = ''run_sql_query''
                    then ''Querying data...['' @ text @ '']''
                    else ''Updating data...['' @ text @ '']'')))"

definition description ::
  "platform \<Rightarrow> variant \<Rightarrow> string option \<Rightarrow> string \<Rightarrow> jsval \<Rightarrow> string + string" where
  "description P v messageContent functionName query =
     (case messageContent of
        None \<Rightarrow> action_text P v functionName query
      | Some c \<Rightarrow> if c \<noteq> [] then Inr c else action_text P v functionName query)"

text \<open>The message of the TypeError of \<open>query.toUpperCase()\<close> on a query that is not a
  string.\<close>

definition not_a_function :: string where
  "not_a_function = ''query.toUpperCase is not a function''"

text \<open>
  The \<open>for\<close> loop over the tool calls of one assistant message, from the call at the head of
  the list on. Every \<open>break\<close> and the end of the list fall through to \<open>iteration++\<close> and
  the loop test; an exception (reading \<open>query\<close> of \<open>null\<close>, building the progress text,
  upper-casing a query that is not a string) goes to the \<open>catch\<close> of the loop body; a call
  that passes the checks suspends at \<open>await callSqlApi(query)\<close>.
\<close>

fun for_tool_calls ::
  "platform \<Rightarrow> variant \<Rightarrow> nat \<Rightarrow> string option \<Rightarrow> tool_call list \<Rightarrow> conn \<Rightarrow> outcome" where
  "for_tool_calls P v iteration c [] w = while_loop (Suc iteration) w"
| "for_tool_calls P v iteration c (toolCall # rest) w =
     (case json_parse P (function_arguments toolCall) of
        Inl e \<Rightarrow> while_loop (Suc iteration) (send (Error ''Invalid tool call arguments.'') w)
      | Inr agrs \<Rightarrow>
          (case get_prop agrs ''query'' of
             Inl e \<Rightarrow> catch_inner iteration e w
           | Inr query \<Rightarrow>
               if \<not> truthy query
               then while_loop (Suc iteration) (send (Error ''Missing query parameter.'') w)
               else
                 (case description P v c (function_name toolCall) query of
                    Inl e \<Rightarrow> catch_inner iteration e w
                  | Inr text \<Rightarrow>
                       let w1 = send (Progress text) w in
                       if function_name toolCall = ''run_sql_query'' then
                         (case query of
                            JStr q \<Rightarrow>
                              if \<not> includes_str (toUpperCase P q) ''SELECT''
                              then while_loop (Suc iteration)
                                     (send (Error ''run_sql_query is only for SELECT queries.'') w1)
                              else
                                (case callSqlApi P q of
                                   Posts url body \<Rightarrow>
                                     Suspended (Await_Sql iteration c toolCall rest)
                                       (w1\<lparr>sql_requests := sql_requests w1 @ [(url, body)]\<rparr>)
                                 | Returns result \<Rightarrow>
                                     for_tool_calls P v iteration c rest
                                       (push (Tool (call_id toolCall) result) w1))
                          | _ \<Rightarrow> catch_inner iteration not_a_function w1)
                       else if function_name toolCall = ''run_sql_mutation'' then
                         (case query of
                            JStr q \<Rightarrow>
                              if \<not> (includes_str (toUpperCase P q) ''INSERT'' \<or>
                                    includes_str (toUpperCase P q) ''UPDATE'' \<or>
                                    includes_str (toUpperCase P q) ''DELETE'')
                              then while_loop (Suc iteration)
                                     (send (Error ''run_sql_mutation is only for INSERT, UPDATE, DELETE queries.'') w1)
                              else
                                (case callSqlApi P q of
                                   Posts url body \<Rightarrow>
                                     Suspended (Await_Sql iteration c toolCall rest)
                                       (w1\<lparr>sql_requests := sql_requests w1 @ [(url, body)]\<rparr>)
                                 | Returns result \<Rightarrow>
                                     for_tool_calls P v iteration c rest
                                       (push (Tool (call_id toolCall) result) w1))
                          | _ \<Rightarrow> catch_inner iteration not_a_function w1)
                       else while_loop (Suc iteration)
                              (send (Error (''Unknown function: '' @ function_name toolCall)) w1))))"

declare for_tool_calls.simps(2) [simp del]

text \<open>The handler resumed with the result of \<open>callSqlApi\<close>: the tool message, then the
  rest of the batch.\<close>

definition on_sql ::
  "platform \<Rightarrow> variant \<Rightarrow> nat \<Rightarrow> string option \<Rightarrow> tool_call \<Rightarrow> tool_call list \<Rightarrow>
   sql_response \<Rightarrow> conn \<Rightarrow> outcome" where
  "on_sql P v iteration c toolCall rest r w =
     for_tool_calls P v iteration c rest
       (push (Tool (call_id toolCall) (callSqlApi_result r)) w)"

text \<open>The message of the error thrown on a status that is not ok (\<open>part_000\<close> adds the
  body).\<close>

definition status_message :: "variant \<Rightarrow> nat \<Rightarrow> string \<Rightarrow> string" where
  "status_message v status errorBody =
     (case v of
        Index_js \<Rightarrow> ''DeepSeek API error '' @ show_nat status
      | Part_000 \<Rightarrow> ''DeepSeek API error '' @ show_nat status @ '': '' @ errorBody)"

text \<open>The handler resumed with the result of the completion request.\<close>

definition on_completion ::
  "platform \<Rightarrow> variant \<Rightarrow> nat \<Rightarrow> completion_result \<Rightarrow> conn \<Rightarrow> outcome" where
  "on_completion P v iteration r w =
     (case r of
        Completion_Throws m \<Rightarrow> catch_inner iteration m w
      | Completion_Status status errorBody \<Rightarrow>
          catch_inner iteration (status_message v status errorBody) w
      | Completion_Reply messageResponse \<Rightarrow>
          (let w1 = push (Assistant messageResponse) w in
           case tool_calls messageResponse of
             None \<Rightarrow>
               Finished (after_loop iteration (send (Response (content messageResponse)) w1))
           | Some [] \<Rightarrow>
               Finished (after_loop iteration (send (Response (content messageResponse)) w1))
           | Some (toolCall # rest) \<Rightarrow>
               for_tool_calls P v iteration (content messageResponse) (toolCall # rest) w1))"

datatype response = Completion completion_result | Sql sql_response

text \<open>A task takes only the response it awaits.\<close>

fun resume :: "platform \<Rightarrow> variant \<Rightarrow> task \<Rightarrow> response \<Rightarrow> conn \<Rightarrow> outcome option" where
  "resume P v (Await_Completion iteration) (Completion r) w =
     Some (on_completion P v iteration r w)"
| "resume P v (Await_Sql iteration c toolCall rest) (Sql r) w =
     Some (on_sql P v iteration c toolCall rest r w)"
| "resume P v t r w = None"

text \<open>The \<open>catch\<close> around the whole handler.\<close>

definition catch_outer :: "string \<Rightarrow> conn \<Rightarrow> conn" where
  "catch_outer m w = (send (Error (''Error: '' @ m)) w)\<lparr>processing := False\<rparr>"

text \<open>The listener of \<open>message\<close> events, from \<open>JSON.parse(event.data)\<close> to its first await
  or its return. In \<open>index.js\<close> the echo converts the message to a string after the user
  message is pushed; \<open>part_000\<close> has the echo commented out.\<close>

definition on_message :: "platform \<Rightarrow> variant \<Rightarrow> string \<Rightarrow> conn \<Rightarrow> outcome" where
  "on_message P v event_data w =
     (case json_parse P event_data of
        Inl e \<Rightarrow> Finished (catch_outer e w)
      | Inr data \<Rightarrow>
          (case get_prop data ''message'' of
             Inl e \<Rightarrow> Finished (catch_outer e w)
           | Inr message \<Rightarrow>
               if \<not> truthy message
               then Finished (send (Error ''No message content provided.'') w)
               else if processing w
               then Finished (send (Error ''Processing previous message, please wait.'') w)
               else
                 let w1 = w\<lparr>processing := True\<rparr>;
                     w2 = push (User message) w1
                 in case v of
                      Index_js \<Rightarrow>
                        (case template P message of
                           Inl e \<Rightarrow> Finished (catch_outer e w2)
                         | Inr text \<Rightarrow> while_loop 0 (send (Progress (''You: '' @ text)) w2))
                    | Part_000 \<Rightarrow> while_loop 0 w2))"

section \<open>Runs\<close>

text \<open>
  One handler on its own, fed the responses of the backends in the order they arrive; a
  response nobody awaits is dropped.
\<close>

fun state_of :: "outcome \<Rightarrow> conn" where
  "state_of (Suspended t w) = w"
| "state_of (Finished w) = w"

fun feed :: "platform \<Rightarrow> variant \<Rightarrow> response \<Rightarrow> outcome \<Rightarrow> outcome" where
  "feed P v r (Suspended t w) =
     (case resume P v t r w of Some out \<Rightarrow> out | None \<Rightarrow> Suspended t w)"
| "feed P v r (Finished w) = Finished w"

fun drive :: "platform \<Rightarrow> variant \<Rightarrow> response list \<Rightarrow> outcome \<Rightarrow> outcome" where
  "drive P v [] out = out"
| "drive P v (r # rs) out = drive P v rs (feed P v r out)"

text \<open>
  A connection with all its handlers: handler \<open>i\<close> is the one started by the \<open>i\<close>-th
  inbound frame, \<open>None\<close> once it has returned. An event is an inbound frame or the
  response a suspended handler awaits.
\<close>

record system =
  session :: conn
  tasks :: "task option list"

datatype event = Inbound string | Arrives nat response

definition settle :: "system \<Rightarrow> nat \<Rightarrow> outcome \<Rightarrow> system" where
  "settle s i out =
     (case out of
        Suspended t w \<Rightarrow> \<lparr>session = w, tasks = (tasks s)[i := Some t]\<rparr>
      | Finished w \<Rightarrow> \<lparr>session = w, tasks = (tasks s)[i := None]\<rparr>)"

fun step :: "platform \<Rightarrow> variant \<Rightarrow> system \<Rightarrow> event \<Rightarrow> system option" where
  "step P v s (Inbound event_data) =
     Some (settle (s\<lparr>tasks := tasks s @ [None]\<rparr>) (length (tasks s))
             (on_message P v event_data (session s)))"
| "step P v s (Arrives i r) =
     (if i < length (tasks s) then
        (case tasks s ! i of
           None \<Rightarrow> None
         | Some t \<Rightarrow>
             (case resume P v t r (session s) of
                None \<Rightarrow> None
              | Some out \<Rightarrow> Some (settle s i out)))
      else None)"

fun run :: "platform \<Rightarrow> variant \<Rightarrow> system \<Rightarrow> event list \<Rightarrow> system option" where
  "run P v s [] = Some s"
| "run P v s (e # es) = (case step P v s e of None \<Rightarrow> None | Some s' \<Rightarrow> run P v s' es)"

section \<open>The pairing of tool messages\<close>

text \<open>
  \<open>paired batch ms\<close>: walking \<open>ms\<close>, every tool message answers a call of the assistant
  message before it, with nothing but tool messages of that batch in between. \<open>batch\<close>
  holds the ids a tool message may carry at this point: those of the nearest assistant
  message while only tool messages followed it, none after any other message.
\<close>

definition ids_of :: "assistant_message \<Rightarrow> string list" where
  "ids_of m = (case tool_calls m of None \<Rightarrow> [] | Some cs \<Rightarrow> map call_id cs)"

fun paired :: "string list \<Rightarrow> message list \<Rightarrow> bool" where
  "paired batch [] = True"
| "paired batch (Assistant m # ms) = paired (ids_of m) ms"
| "paired batch (Tool i result # ms) = (i \<in> set batch \<and> paired batch ms)"
| "paired batch (System p # ms) = paired [] ms"
| "paired batch (User u # ms) = paired [] ms"

section \<open>A runtime for concrete runs\<close>

text \<open>
  A runtime cut down to the texts used in the concrete runs below. Its \<open>JSON.parse\<close> knows
  the listed texts and rejects every other one. Its conversion to a string is that of
  JavaScript on \<open>undefined\<close>, \<open>null\<close>, the booleans, the integers below \<open>10^21\<close>, strings,
  objects, and arrays of these. Its \<open>toUpperCase\<close> is that of JavaScript on ASCII text and
  on the characters U+017F, U+0131 and U+00DF (in UTF-8: the bytes C5 BF, C4 B1, C3 9F).
\<close>

definition long_s_select :: string where
  "long_s_select = [CHR 0xC5, CHR 0xBF] @ ''elect * from packages''"

definition sample_texts :: "(string \<times> jsval) list" where
  \<open>sample_texts =
     [(''{"message":"list all packages"}'', JObj [(''message'', JStr ''list all packages'')]),
      (''{"message":"and the prices?"}'', JObj [(''message'', JStr ''and the prices?'')]),
      (''{"message":""}'', JObj [(''message'', JStr [])]),
      (''{"message":5}'', JObj [(''message'', JNum 5)]),
      (''{"message":{"toString":1}}'', JObj [(''message'', JObj [(''toString'', JNum 1)])]),
      (''{"text":"hi"}'', JObj [(''text'', JStr ''hi'')]),
      (''null'', JNull),
      (''{"query":"SELECT * FROM packages"}'', JObj [(''query'', JStr ''SELECT * FROM packages'')]),
      (''{"query":"DROP TABLE packages"}'', JObj [(''query'', JStr ''DROP TABLE packages'')]),
      (''{"query":"INSERT INTO archive SELECT * FROM packages"}'',
         JObj [(''query'', JStr ''INSERT INTO archive SELECT * FROM packages'')]),
      (''{"query":"'' @ long_s_select @ ''"}'', JObj [(''query'', JStr long_s_select)]),
      (''{"query":""}'', JObj [(''query'', JStr [])]),
      (''{"query":5}'', JObj [(''query'', JNum 5)]),
      (''{}'', JObj [])]\<close>

definition cannot_convert :: string where
  "cannot_convert = ''Cannot convert object to primitive value''"

fun join_texts :: "(string + string) list \<Rightarrow> string + string" where
  "join_texts [] = Inr []"
| "join_texts [x] = x"
| "join_texts (x # y # ys) =
     (case x of
        Inl e \<Rightarrow> Inl e
      | Inr s \<Rightarrow> (case join_texts (y # ys) of Inl e \<Rightarrow> Inl e | Inr t \<Rightarrow> Inr (s @ '','' @ t)))"

fun sample_to_string :: "jsval \<Rightarrow> string + string" where
  "sample_to_string JUndefined = Inr ''undefined''"
| "sample_to_string JNull = Inr ''null''"
| "sample_to_string (JBool b) = Inr (if b then ''true'' else ''false'')"
| "sample_to_string (JNum n) =
     Inr (if n < 0 then ''-'' @ show_nat (nat (- n)) else show_nat (nat n))"
| "sample_to_string (JStr s) = Inr s"
| "sample_to_string (JArr xs) =
     join_texts
       (map (\<lambda>x. if x = JNull \<or> x = JUndefined then Inr [] else sample_to_string x) xs)"
| "sample_to_string (JObj kvs) =
     (if map_of kvs ''toString'' = None then Inr ''[object Object]'' else Inl cannot_convert)"

definition upper_char :: "char \<Rightarrow> char" where
  "upper_char c =
     (case map_of (zip ''abcdefghijklmnopqrstuvwxyz'' ''ABCDEFGHIJKLMNOPQRSTUVWXYZ'') c of
        None \<Rightarrow> c
      | Some u \<Rightarrow> u)"

fun sample_upper :: "string \<Rightarrow> string" where
  "sample_upper [] = []"
| "sample_upper [c] = [upper_char c]"
| "sample_upper (c # d # s) =
     (if c = CHR 0xC5 \<and> d = CHR 0xBF then CHR ''S'' # sample_upper s
      else if c = CHR 0xC4 \<and> d = CHR 0xB1 then CHR ''I'' # sample_upper s
      else if c = CHR 0xC3 \<and> d = CHR 0x9F then CHR ''S'' # CHR ''S'' # sample_upper s
      else upper_char c # sample_upper (d # s))"

definition sample :: platform where
  "sample =
     \<lparr>json_parse = (\<lambda>s. case map_of sample_texts s of
                           None \<Rightarrow> Inl ''Unexpected token''
                         | Some x \<Rightarrow> Inr x),
      to_string = sample_to_string,
      to_upper = sample_upper,
      greeting = ''Xin chao''\<rparr>"

definition idle :: conn where
  "idle = open_session sample Index_js ''You are a helpful assistant.''"

text \<open>The session once the handler of a first user message waits for the completion
  backend.\<close>

definition started :: conn where
  "started =
     \<lparr>messages = [System ''You are a helpful assistant.'', User (JStr ''list all packages'')],
      processing = True,
      sent = [Progress ''You: list all packages''],
      completion_requests =
        [[System ''You are a helpful assistant.'', User (JStr ''list all packages'')]],
      sql_requests = []\<rparr>"

text \<open>Tool calls for the concrete runs.\<close>

definition select_call :: tool_call where
  \<open>select_call =
     \<lparr>call_id = ''call_1'', function_name = ''run_sql_query'',
      function_arguments = ''{"query":"SELECT * FROM packages"}''\<rparr>\<close>

definition drop_call :: tool_call where
  \<open>drop_call =
     \<lparr>call_id = ''call_2'', function_name = ''run_sql_query'',
      function_arguments = ''{"query":"DROP TABLE packages"}''\<rparr>\<close>

definition empty_query_call :: tool_call where
  \<open>empty_query_call =
     \<lparr>call_id = ''call_3'', function_name = ''run_sql_query'',
      function_arguments = ''{"query":""}''\<rparr>\<close>

definition number_query_call :: tool_call where
  \<open>number_query_call =
     \<lparr>call_id = ''call_4'', function_name = ''run_sql_query'',
      function_arguments = ''{"query":5}''\<rparr>\<close>

definition no_query_call :: tool_call where
  \<open>no_query_call =
     \<lparr>call_id = ''call_5'', function_name = ''run_sql_query'',
      function_arguments = ''{}''\<rparr>\<close>

definition garbled_call :: tool_call where
  \<open>garbled_call =
     \<lparr>call_id = ''call_6'', function_name = ''run_sql_query'',
      function_arguments = ''oops''\<rparr>\<close>

definition misnamed_call :: tool_call where
  \<open>misnamed_call =
     \<lparr>call_id = ''call_7'', function_name = ''run_sql_mutation'',
      function_arguments = ''{"query":"SELECT * FROM packages"}''\<rparr>\<close>

definition insert_select_call :: tool_call where
  \<open>insert_select_call =
     \<lparr>call_id = ''call_8'', function_name = ''run_sql_mutation'',
      function_arguments = ''{"query":"INSERT INTO archive SELECT * FROM packages"}''\<rparr>\<close>

definition long_s_call :: tool_call where
  \<open>long_s_call =
     \<lparr>call_id = ''call_9'', function_name = ''run_sql_query'',
      function_arguments = ''{"query":"'' @ long_s_select @ ''"}''\<rparr>\<close>

definition unknown_number_call :: tool_call where
  \<open>unknown_number_call =
     \<lparr>call_id = ''call_10'', function_name = ''run_sql_count'',
      function_arguments = ''{"query":5}''\<rparr>\<close>

text \<open>Assistant messages for the concrete runs.\<close>

definition insert_select_turn :: assistant_message where
  "insert_select_turn = \<lparr>content = None, tool_calls = Some [insert_select_call]\<rparr>"

definition unknown_number_turn :: assistant_message where
  "unknown_number_turn = \<lparr>content = None, tool_calls = Some [unknown_number_call]\<rparr>"

definition empty_query_turn :: assistant_message where
  "empty_query_turn = \<lparr>content = None, tool_calls = Some [empty_query_call]\<rparr>"

definition long_s_turn :: assistant_message where
  "long_s_turn = \<lparr>content = None, tool_calls = Some [long_s_call]\<rparr>"

definition garbled_turn :: assistant_message where
  "garbled_turn = \<lparr>content = None, tool_calls = Some [garbled_call]\<rparr>"

definition number_query_turn :: assistant_message where
  "number_query_turn = \<lparr>content = None, tool_calls = Some [number_query_call]\<rparr>"

definition select_turn :: assistant_message where
  "select_turn = \<lparr>content = None, tool_calls = Some [select_call]\<rparr>"

text \<open>
  Two runs of one handler in which nine responses each carry a call with unparseable
  arguments and the tenth a call whose query is the number 5: in the first the call names
  \<open>run_sql_query\<close>, in the second a function the worker does not know.
\<close>

definition tenth_batch_breaks :: outcome where
  \<open>tenth_batch_breaks =
     drive sample Index_js
       (replicate 9 (Completion (Completion_Reply garbled_turn)) @
        [Completion (Completion_Reply unknown_number_turn)])
       (on_message sample Index_js ''{"message":"list all packages"}'' idle)\<close>

definition tenth_batch_faults :: outcome where
  \<open>tenth_batch_faults =
     drive sample Index_js
       (replicate 9 (Completion (Completion_Reply garbled_turn)) @
        [Completion (Completion_Reply number_query_turn)])
       (on_message sample Index_js ''{"message":"list all packages"}'' idle)\<close>

text \<open>
  Two interleavings on one connection. In both, the handler of a first message waits for
  the data-access backend when a frame that is not JSON arrives, and then a second
  message. In the second interleaving the completion backend answers the second handler
  before the data-access backend answers the first.
\<close>

definition plain_turn :: assistant_message where
  "plain_turn = \<lparr>content = Some ''Here they are.'', tool_calls = None\<rparr>"

definition overlap_events :: "event list" where
  \<open>overlap_events =
     [Inbound ''{"message":"list all packages"}'',
      Arrives 0 (Completion (Completion_Reply select_turn)),
      Inbound ''oops'',
      Inbound ''{"message":"and the prices?"}'',
      Arrives 0 (Sql (Sql_Data (JObj [(''rows'', JArr [])])))]\<close>

definition overtaking_events :: "event list" where
  \<open>overtaking_events =
     [Inbound ''{"message":"list all packages"}'',
      Arrives 0 (Completion (Completion_Reply select_turn)),
      Inbound ''oops'',
      Inbound ''{"message":"and the prices?"}'',
      Arrives 2 (Completion (Completion_Reply plain_turn)),
      Arrives 0 (Sql (Sql_Data (JObj [(''rows'', JArr [])])))]\<close>

definition history_after :: "event list \<Rightarrow> message list option" where
  "history_after es =
     map_option (\<lambda>s. messages (session s))
       (run sample Index_js \<lparr>session = idle, tasks = []\<rparr> es)"

section \<open>Notions used in the statements\<close>

text \<open>The message of the error a failed completion exchange throws; \<open>None\<close> for a reply.\<close>

definition failure_message :: "variant \<Rightarrow> completion_result \<Rightarrow> string option" where
  "failure_message v r =
     (case r of
        Completion_Throws m \<Rightarrow> Some m
      | Completion_Status status errorBody \<Rightarrow> Some (status_message v status errorBody)
      | Completion_Reply messageResponse \<Rightarrow> None)"

text \<open>The value of \<open>iteration\<close> in a suspended handler.\<close>

fun iteration_of :: "task \<Rightarrow> nat" where
  "iteration_of (Await_Completion iteration) = iteration"
| "iteration_of (Await_Sql iteration c toolCall rest) = iteration"

text \<open>A suspended handler whose counter is below the ceiling.\<close>

fun bounded :: "outcome \<Rightarrow> bool" where
  "bounded (Suspended t w) = (iteration_of t < maxIterations)"
| "bounded (Finished w) = True"

text \<open>
  A tool call that passes every check of the dispatcher, so that its query is handed to
  \<open>callSqlApi\<close>; and the value of \<open>agrs.query\<close> of a call (\<open>undefined\<close> where there is
  none).
\<close>

definition accepted :: "platform \<Rightarrow> tool_call \<Rightarrow> bool" where
  "accepted P toolCall =
     (case json_parse P (function_arguments toolCall) of
        Inl e \<Rightarrow> False
      | Inr agrs \<Rightarrow>
          (case get_prop agrs ''query'' of
             Inl e \<Rightarrow> False
           | Inr query \<Rightarrow>
               (case query of
                  JStr q \<Rightarrow>
                    q \<noteq> [] \<and>
                    (if function_name toolCall = ''run_sql_query''
                     then includes_str (toUpperCase P q) ''SELECT''
                     else function_name toolCall = ''run_sql_mutation'' \<and>
                          (includes_str (toUpperCase P q) ''INSERT'' \<or>
                           includes_str (toUpperCase P q) ''UPDATE'' \<or>
                           includes_str (toUpperCase P q) ''DELETE''))
                | _ \<Rightarrow> False)))"

definition query_of :: "platform \<Rightarrow> tool_call \<Rightarrow> jsval" where
  "query_of P toolCall =
     (case json_parse P (function_arguments toolCall) of
        Inl e \<Rightarrow> JUndefined
      | Inr agrs \<Rightarrow> (case get_prop agrs ''query'' of Inl e \<Rightarrow> JUndefined | Inr query \<Rightarrow> query))"

text \<open>
  The progress text of a call whose query is the string \<open>q\<close> (no conversion, so nothing
  is thrown), and the progress frame of a call.
\<close>

definition progress_text :: "variant \<Rightarrow> string option \<Rightarrow> string \<Rightarrow> string \<Rightarrow> string" where
  "progress_text v messageContent functionName q =
     (let made =
        (case v of
           Index_js \<Rightarrow>
             if functionName = ''run_sql_query'' then ''Querying data...'' else ''Updating data...''
         | Part_000 \<Rightarrow>
             if functionName = ''run_sql_query''
             then ''Querying data...['' @ q @ '']''
             else ''Updating data...['' @ q @ '']'')
      in case messageContent of None \<Rightarrow> made | Some c \<Rightarrow> if c \<noteq> [] then c else made)"

definition progress_of :: "platform \<Rightarrow> variant \<Rightarrow> string option \<Rightarrow> tool_call \<Rightarrow> frame" where
  "progress_of P v c toolCall =
     Progress (progress_text v c (function_name toolCall)
                 (case query_of P toolCall of JStr q \<Rightarrow> q | _ \<Rightarrow> []))"

text \<open>
  \<open>counted base out\<close>: with \<open>base\<close> completion requests in the log before the user message,
  a handler suspended in iteration \<open>i\<close> has issued \<open>i + 1\<close> of its own, and a handler that
  has returned at most ten.
\<close>

fun counted :: "nat \<Rightarrow> outcome \<Rightarrow> bool" where
  "counted base (Suspended t w) =
     (iteration_of t < maxIterations \<and>
      length (completion_requests w) = base + Suc (iteration_of t))"
| "counted base (Finished w) = (length (completion_requests w) \<le> base + maxIterations)"

text \<open>
  The ids a tool message may carry after the whole of \<open>ms\<close>, or \<open>None\<close> when \<open>ms\<close> is not
  paired; and what holds of a connection whose handlers exclude one another: a handler
  waiting for the completion backend has a paired history, a handler waiting for the
  data-access backend has the ids of its current and remaining calls in the open batch.
\<close>

fun batch_end :: "string list \<Rightarrow> message list \<Rightarrow> string list option" where
  "batch_end batch [] = Some batch"
| "batch_end batch (Assistant m # ms) = batch_end (ids_of m) ms"
| "batch_end batch (Tool i result # ms) = (if i \<in> set batch then batch_end batch ms else None)"
| "batch_end batch (System p # ms) = batch_end [] ms"
| "batch_end batch (User u # ms) = batch_end [] ms"

fun task_ok :: "task \<Rightarrow> conn \<Rightarrow> bool" where
  "task_ok (Await_Completion iteration) w = paired [] (messages w)"
| "task_ok (Await_Sql iteration c toolCall rest) w =
     (case batch_end [] (messages w) of
        None \<Rightarrow> False
      | Some batch \<Rightarrow> call_id toolCall \<in> set batch \<and> set (map call_id rest) \<subseteq> set batch)"

fun outcome_ok :: "outcome \<Rightarrow> bool" where
  "outcome_ok (Suspended t w) = (processing w \<and> task_ok t w)"
| "outcome_ok (Finished w) = (\<not> processing w \<and> paired [] (messages w))"

definition system_ok :: "system \<Rightarrow> bool" where
  "system_ok s =
     (if processing (session s)
      then \<exists>i t. i < length (tasks s) \<and> tasks s ! i = Some t \<and> task_ok t (session s) \<and>
                 (\<forall>j < length (tasks s). j \<noteq> i \<longrightarrow> tasks s ! j = None)
      else (\<forall>j < length (tasks s). tasks s ! j = None) \<and> paired [] (messages (session s)))"

text \<open>
  An inbound frame is \<open>guarded\<close> when it does not reach the \<open>catch\<close> around the handler
  while \<open>processing\<close> is set; a run is guarded when each of its events is.
\<close>

fun guarded :: "platform \<Rightarrow> system \<Rightarrow> event \<Rightarrow> bool" where
  "guarded P s (Inbound event_data) =
     (processing (session s) \<longrightarrow>
        (case json_parse P event_data of
           Inl e \<Rightarrow> False
         | Inr data \<Rightarrow> (case get_prop data ''message'' of Inl e \<Rightarrow> False | Inr m \<Rightarrow> True)))"
| "guarded P s (Arrives i r) = True"

fun guarded_run :: "platform \<Rightarrow> variant \<Rightarrow> system \<Rightarrow> event list \<Rightarrow> bool" where
  "guarded_run P v s [] = True"
| "guarded_run P v s (e # es) =
     (guarded P s e \<and>
      (case step P v s e of None \<Rightarrow> True | Some s' \<Rightarrow> guarded_run P v s' es))"

section \<open>Basic facts\<close>

lemma includes_str_sublist: "includes_str s t = sublist t s"
  by (induction s) (simp_all add: sublist_Cons_right)

lemma includes_str_iff: "includes_str s t \<longleftrightarrow> (\<exists>ps ss. s = ps @ t @ ss)"
  by (simp add: includes_str_sublist sublist_def)

lemma toUpperCase_empty [simp]: "toUpperCase P [] = []"
  by (simp add: toUpperCase_def)

lemma template_string [simp]: "template P (JStr s) = Inr s"
  by (simp add: template_def)

lemma description_string:
  "description P v c functionName (JStr q) = Inr (progress_text v c functionName q)"
  by (cases v; cases c) (simp_all add: description_def action_text_def progress_text_def)

lemma send_fields [simp]:
  "messages (send f w) = messages w"
  "processing (send f w) = processing w"
  "completion_requests (send f w) = completion_requests w"
  "sql_requests (send f w) = sql_requests w"
  "sent (send f w) = sent w @ [f]"
  by (simp_all add: send_def)

lemma push_fields [simp]:
  "messages (push m w) = messages w @ [m]"
  "processing (push m w) = processing w"
  "completion_requests (push m w) = completion_requests w"
  "sql_requests (push m w) = sql_requests w"
  "sent (push m w) = sent w"
  by (simp_all add: push_def)

lemma sample_parse_message:
  \<open>json_parse sample ''{"message":"list all packages"}'' =
     Inr (JObj [(''message'', JStr ''list all packages'')])\<close>
  \<open>json_parse sample ''{"message":"and the prices?"}'' =
     Inr (JObj [(''message'', JStr ''and the prices?'')])\<close>
  \<open>json_parse sample ''{"message":""}'' = Inr (JObj [(''message'', JStr [])])\<close>
  \<open>json_parse sample ''{"message":5}'' = Inr (JObj [(''message'', JNum 5)])\<close>
  \<open>json_parse sample ''{"message":{"toString":1}}'' =
     Inr (JObj [(''message'', JObj [(''toString'', JNum 1)])])\<close>
  \<open>json_parse sample ''{"text":"hi"}'' = Inr (JObj [(''text'', JStr ''hi'')])\<close>
  \<open>json_parse sample ''null'' = Inr JNull\<close>
  \<open>json_parse sample ''oops'' = Inl ''Unexpected token''\<close>
  by (simp_all add: sample_def sample_texts_def)

lemma sample_parse_arguments:
  \<open>json_parse sample ''{"query":"SELECT * FROM packages"}'' =
     Inr (JObj [(''query'', JStr ''SELECT * FROM packages'')])\<close>
  \<open>json_parse sample ''{"query":"DROP TABLE packages"}'' =
     Inr (JObj [(''query'', JStr ''DROP TABLE packages'')])\<close>
  \<open>json_parse sample ''{"query":""}'' = Inr (JObj [(''query'', JStr [])])\<close>
  \<open>json_parse sample ''{"query":5}'' = Inr (JObj [(''query'', JNum 5)])\<close>
  \<open>json_parse sample ''{}'' = Inr (JObj [])\<close>
  by (simp_all add: sample_def sample_texts_def)

lemma sample_to_string_values:
  "to_string sample (JNum 5) = Inr ''5''"
  "to_string sample (JObj [(''toString'', JNum 1)]) = Inl cannot_convert"
  by (simp_all add: sample_def show_nat.simps)

lemma first_message_starts:
  \<open>on_message sample Index_js ''{"message":"list all packages"}'' idle =
     Suspended (Await_Completion 0) started\<close>
  by (simp add: on_message_def sample_parse_message idle_def open_session_def started_def
      push_def send_def while_loop_def maxIterations_def)

section \<open>The query router\<close>

text \<open>
  What \<open>callSqlApi\<close> does, in the order of its tests: a query whose upper-case form
  contains SELECT is posted to the read endpoint whatever else it contains; a query
  without SELECT that contains INSERT, UPDATE or DELETE is posted to the write endpoint;
  a query with none of the four keywords is answered with
  \<open>{error: "Invalid query type"}\<close> and no request.
\<close>

lemma callSqlApi_order:
  "(includes_str (toUpperCase P q) ''SELECT'' \<longrightarrow> callSqlApi P q = Posts Query_Endpoint q) \<and>
   (\<not> includes_str (toUpperCase P q) ''SELECT'' \<and>
      (includes_str (toUpperCase P q) ''INSERT'' \<or>
       includes_str (toUpperCase P q) ''UPDATE'' \<or>
       includes_str (toUpperCase P q) ''DELETE'') \<longrightarrow>
      callSqlApi P q = Posts Mutate_Endpoint q) \<and>
   (\<not> includes_str (toUpperCase P q) ''SELECT'' \<and>
    \<not> includes_str (toUpperCase P q) ''INSERT'' \<and>
    \<not> includes_str (toUpperCase P q) ''UPDATE'' \<and>
    \<not> includes_str (toUpperCase P q) ''DELETE'' \<longrightarrow>
      callSqlApi P q = Returns (JObj [(''error'', JStr ''Invalid query type'')]))"
  by (simp add: callSqlApi_def)

text \<open>
  C3. The claim sends every query that contains INSERT, UPDATE or DELETE to the write
  endpoint. The dispatcher takes \<open>INSERT INTO archive SELECT * FROM packages\<close> for a
  mutation: under the name \<open>run_sql_mutation\<close> it passes the policy test. \<open>callSqlApi\<close>
  then tests SELECT first and posts the same query to the read endpoint.
\<close>

theorem insert_select_posted_to_read_endpoint:
  "function_name insert_select_call = ''run_sql_mutation'' \<and>
   query_of sample insert_select_call = JStr ''INSERT INTO archive SELECT * FROM packages'' \<and>
   includes_str (toUpperCase sample ''INSERT INTO archive SELECT * FROM packages'') ''INSERT'' \<and>
   accepted sample insert_select_call \<and>
   callSqlApi sample ''INSERT INTO archive SELECT * FROM packages'' =
     Posts Query_Endpoint ''INSERT INTO archive SELECT * FROM packages'' \<and>
   drive sample Index_js [Completion (Completion_Reply insert_select_turn)]
     (Suspended (Await_Completion 0) started) =
   Suspended (Await_Sql 0 None insert_select_call [])
     (started\<lparr>messages := messages started @ [Assistant insert_select_turn],
               sent := [Progress ''You: list all packages'', Progress ''Updating data...''],
               sql_requests :=
                 [(Query_Endpoint, ''INSERT INTO archive SELECT * FROM packages'')]\<rparr>)"
  by code_simp

section \<open>The guards of the handler\<close>

text \<open>
  C10. A frame that parses to an object whose \<open>message\<close> field is falsy (the empty string,
  \<open>null\<close>, \<open>0\<close>, \<open>false\<close>) is answered with \<open>{error: "No message content provided."}\<close>
  and the handler returns: nothing else of the session changes and no loop starts.
\<close>

theorem falsy_message_rejected:
  assumes "json_parse P event_data = Inr (JObj kvs)"
    and "map_of kvs ''message'' = Some m"
    and "\<not> truthy m"
  shows "on_message P v event_data w =
           Finished (w\<lparr>sent := sent w @ [Error ''No message content provided.'']\<rparr>)"
  using assms by (simp add: on_message_def send_def)

theorem falsy_message_rejected_witness:
  \<open>on_message sample Index_js ''{"message":""}'' idle =
     Finished (idle\<lparr>sent := sent idle @ [Error ''No message content provided.'']\<rparr>)\<close>
proof -
  have p: \<open>json_parse sample ''{"message":""}'' = Inr (JObj [(''message'', JStr [])])\<close>
    by (simp add: sample_def sample_texts_def)
  have f: "map_of [(''message'', JStr [])] ''message'' = Some (JStr [])"
    by simp
  have t: "\<not> truthy (JStr [])"
    by simp
  show ?thesis
    by (rule falsy_message_rejected [OF p f t])
qed

text \<open>
  C2. While \<open>processing\<close> is set, a frame carrying a non-empty string as \<open>message\<close> is
  answered with the one frame \<open>{error: "Processing previous message, please wait."}\<close>;
  the history, the flag and the request logs stay as they are.
\<close>

theorem busy_session_rejects_message:
  assumes "processing w"
    and "json_parse P event_data = Inr data"
    and "get_prop data ''message'' = Inr (JStr s)"
    and "s \<noteq> []"
  shows "on_message P v event_data w =
           Finished (w\<lparr>sent := sent w @ [Error ''Processing previous message, please wait.'']\<rparr>)"
  using assms by (simp add: on_message_def send_def)

theorem busy_session_rejects_message_witness:
  \<open>processing started \<and>
   on_message sample Index_js ''{"message":"and the prices?"}'' started =
     Finished (started\<lparr>sent := [Progress ''You: list all packages'',
                                 Error ''Processing previous message, please wait.'']\<rparr>)\<close>
proof -
  have b: "processing started"
    by (simp add: started_def)
  have g: "get_prop (JObj [(''message'', JStr ''and the prices?'')]) ''message'' =
             Inr (JStr ''and the prices?'')"
    by simp
  have n: "''and the prices?'' \<noteq> []"
    by simp
  have "sent started = [Progress ''You: list all packages'']"
    by (simp add: started_def)
  with busy_session_rejects_message [OF b sample_parse_message(2) g n, of Index_js] b
  show ?thesis
    by simp
qed

text \<open>
  C5 (as amended). Every inbound frame falls under one of these cases.
  \<^item> It parses to a value other than \<open>null\<close> whose \<open>message\<close> is missing or falsy: the
    handler sends \<open>{error: "No message content provided."}\<close> and nothing else of the
    session changes.
  \<^item> It is not valid JSON, or it parses to \<open>null\<close>: the handler sends \<open>{error: "Error: ..."}\<close>
    with the message of the exception (of the parse, or of reading \<open>message\<close> of \<open>null\<close>);
    the history and the request logs stay as they are and no loop starts.
  \<^item> Its \<open>message\<close> is truthy, of any type. While the session is processing it gets the
    busy frame. Otherwise the user message is appended and \<open>processing\<close> set; \<open>part_000\<close>
    then issues the first completion request; \<open>index.js\<close> first echoes the message, and
    when the conversion of the message to a string throws, it sends
    \<open>{error: "Error: ..."}\<close>, clears \<open>processing\<close> and issues no request.
\<close>

theorem protocol_errors:
  "(json_parse P event_data = Inr data \<and> get_prop data ''message'' = Inr m \<and> \<not> truthy m \<longrightarrow>
      on_message P v event_data w =
        Finished (w\<lparr>sent := sent w @ [Error ''No message content provided.'']\<rparr>)) \<and>
   (json_parse P event_data = Inl e \<longrightarrow>
      (\<exists>w'. on_message P v event_data w = Finished w' \<and>
            sent w' = sent w @ [Error (''Error: '' @ e)] \<and>
            messages w' = messages w \<and>
            completion_requests w' = completion_requests w \<and>
            sql_requests w' = sql_requests w)) \<and>
   (json_parse P event_data = Inr JNull \<longrightarrow>
      (\<exists>w'. on_message P v event_data w = Finished w' \<and>
            sent w' = sent w @ [Error (''Error: '' @ cannot_read ''null'' ''message'')] \<and>
            messages w' = messages w \<and>
            completion_requests w' = completion_requests w \<and>
            sql_requests w' = sql_requests w)) \<and>
   (json_parse P event_data = Inr data \<and> get_prop data ''message'' = Inr m \<and> truthy m \<longrightarrow>
      (processing w \<longrightarrow>
         on_message P v event_data w =
           Finished (w\<lparr>sent := sent w @ [Error ''Processing previous message, please wait.'']\<rparr>)) \<and>
      (\<not> processing w \<and> v = Part_000 \<longrightarrow>
         on_message P v event_data w =
           Suspended (Await_Completion 0)
             (w\<lparr>processing := True, messages := messages w @ [User m],
                 completion_requests := completion_requests w @ [messages w @ [User m]]\<rparr>)) \<and>
      (\<not> processing w \<and> v = Index_js \<and> template P m = Inr text \<longrightarrow>
         on_message P v event_data w =
           Suspended (Await_Completion 0)
             (w\<lparr>processing := True, messages := messages w @ [User m],
                 sent := sent w @ [Progress (''You: '' @ text)],
                 completion_requests := completion_requests w @ [messages w @ [User m]]\<rparr>)) \<and>
      (\<not> processing w \<and> v = Index_js \<and> template P m = Inl e \<longrightarrow>
         on_message P v event_data w =
           Finished (w\<lparr>processing := False, messages := messages w @ [User m],
                       sent := sent w @ [Error (''Error: '' @ e)]\<rparr>)))"
  by (simp add: on_message_def send_def push_def catch_outer_def while_loop_def
      maxIterations_def)

theorem protocol_errors_witness:
  \<open>on_message sample Index_js ''{"text":"hi"}'' idle =
     Finished (idle\<lparr>sent := sent idle @ [Error ''No message content provided.'']\<rparr>) \<and>
   (\<exists>w'. on_message sample Index_js ''oops'' idle = Finished w' \<and>
         sent w' = sent idle @ [Error ''Error: Unexpected token''] \<and>
         messages w' = messages idle) \<and>
   (\<exists>w'. on_message sample Index_js ''null'' idle = Finished w' \<and>
         sent w' = sent idle @ [Error (''Error: '' @ cannot_read ''null'' ''message'')] \<and>
         messages w' = messages idle) \<and>
   on_message sample Index_js ''{"message":5}'' started =
     Finished (started\<lparr>sent := sent started @
                 [Error ''Processing previous message, please wait.'']\<rparr>) \<and>
   on_message sample Part_000 ''{"message":5}'' idle =
     Suspended (Await_Completion 0)
       (idle\<lparr>processing := True, messages := messages idle @ [User (JNum 5)],
             completion_requests :=
               completion_requests idle @ [messages idle @ [User (JNum 5)]]\<rparr>) \<and>
   on_message sample Index_js ''{"message":5}'' idle =
     Suspended (Await_Completion 0)
       (idle\<lparr>processing := True, messages := messages idle @ [User (JNum 5)],
             sent := sent idle @ [Progress ''You: 5''],
             completion_requests :=
               completion_requests idle @ [messages idle @ [User (JNum 5)]]\<rparr>) \<and>
   on_message sample Index_js ''{"message":{"toString":1}}'' idle =
     Finished (idle\<lparr>processing := False,
                    messages := messages idle @ [User (JObj [(''toString'', JNum 1)])],
                    sent := sent idle @ [Error (''Error: '' @ cannot_convert)]\<rparr>)\<close>
proof -
  have g1: "get_prop (JObj [(''text'', JStr ''hi'')]) ''message'' = Inr JUndefined"
    by simp
  have g5: "get_prop (JObj [(''message'', JNum 5)]) ''message'' = Inr (JNum 5)"
    by simp
  have gt: "get_prop (JObj [(''message'', JObj [(''toString'', JNum 1)])]) ''message'' =
      Inr (JObj [(''toString'', JNum 1)])"
    by simp
  have t5: "template sample (JNum 5) = Inr ''5''"
    by (simp add: template_def sample_to_string_values)
  have tt: "template sample (JObj [(''toString'', JNum 1)]) = Inl cannot_convert"
    by (simp add: template_def sample_to_string_values)
  have i: "\<not> processing idle" "processing started"
    by (simp_all add: idle_def open_session_def started_def)
  have c1: \<open>on_message sample Index_js ''{"text":"hi"}'' idle =
     Finished (idle\<lparr>sent := sent idle @ [Error ''No message content provided.'']\<rparr>)\<close>
    using protocol_errors [of sample \<open>''{"text":"hi"}''\<close> "JObj [(''text'', JStr ''hi'')]"
        JUndefined Index_js idle] sample_parse_message(6) g1
    by simp
  have c2: \<open>\<exists>w'. on_message sample Index_js ''oops'' idle = Finished w' \<and>
         sent w' = sent idle @ [Error ''Error: Unexpected token''] \<and>
         messages w' = messages idle\<close>
    using protocol_errors [of sample "''oops''" JNull JNull Index_js idle "''Unexpected token''" "[]"]
        sample_parse_message(8)
    by auto
  have c3: \<open>\<exists>w'. on_message sample Index_js ''null'' idle = Finished w' \<and>
         sent w' = sent idle @ [Error (''Error: '' @ cannot_read ''null'' ''message'')] \<and>
         messages w' = messages idle\<close>
    using protocol_errors [of sample "''null''" JNull JNull Index_js idle "[]" "[]"]
        sample_parse_message(7)
    by auto
  have c4: \<open>on_message sample Index_js ''{"message":5}'' started =
     Finished (started\<lparr>sent := sent started @
                 [Error ''Processing previous message, please wait.'']\<rparr>)\<close>
    using protocol_errors [of sample \<open>''{"message":5}''\<close> "JObj [(''message'', JNum 5)]"
        "JNum 5" Index_js started] sample_parse_message(4) g5 i
    by simp
  have c5: \<open>on_message sample Part_000 ''{"message":5}'' idle =
     Suspended (Await_Completion 0)
       (idle\<lparr>processing := True, messages := messages idle @ [User (JNum 5)],
             completion_requests :=
               completion_requests idle @ [messages idle @ [User (JNum 5)]]\<rparr>)\<close>
    using protocol_errors [of sample \<open>''{"message":5}''\<close> "JObj [(''message'', JNum 5)]"
        "JNum 5" Part_000 idle] sample_parse_message(4) g5 i
    by simp
  have c6: \<open>on_message sample Index_js ''{"message":5}'' idle =
     Suspended (Await_Completion 0)
       (idle\<lparr>processing := True, messages := messages idle @ [User (JNum 5)],
             sent := sent idle @ [Progress ''You: 5''],
             completion_requests :=
               completion_requests idle @ [messages idle @ [User (JNum 5)]]\<rparr>)\<close>
    using protocol_errors [of sample \<open>''{"message":5}''\<close> "JObj [(''message'', JNum 5)]"
        "JNum 5" Index_js idle _ "''5''"] sample_parse_message(4) g5 i t5
    by simp
  have c7: \<open>on_message sample Index_js ''{"message":{"toString":1}}'' idle =
     Finished (idle\<lparr>processing := False,
                    messages := messages idle @ [User (JObj [(''toString'', JNum 1)])],
                    sent := sent idle @ [Error (''Error: '' @ cannot_convert)]\<rparr>)\<close>
    using protocol_errors [of sample \<open>''{"message":{"toString":1}}''\<close>
        "JObj [(''message'', JObj [(''toString'', JNum 1)])]"
        "JObj [(''toString'', JNum 1)]" Index_js idle cannot_convert]
        sample_parse_message(5) gt i tt
    by simp
  from c1 c2 c3 c4 c5 c6 c7 show ?thesis
    by blast
qed

text \<open>
  The claim as written promises the frame \<open>{error: "No message content provided."}\<close> and an
  untouched session for every frame of another shape. Text that is not JSON, arriving
  while a message is being processed, gets another frame and clears \<open>processing\<close>; a
  number as \<open>message\<close> starts the loop.
\<close>

theorem malformed_frame_counterexample:
  \<open>processing started \<and>
   on_message sample Index_js ''oops'' started =
     Finished (started\<lparr>processing := False,
                        sent := [Progress ''You: list all packages'',
                                 Error ''Error: Unexpected token'']\<rparr>) \<and>
   on_message sample Index_js ''{"message":5}'' idle =
     Suspended (Await_Completion 0)
       (idle\<lparr>processing := True,
             messages := messages idle @ [User (JNum 5)],
             sent := [Progress ''You: 5''],
             completion_requests := [messages idle @ [User (JNum 5)]]\<rparr>)\<close>
  by (simp add: on_message_def sample_parse_message idle_def open_session_def started_def
      catch_outer_def send_def push_def while_loop_def maxIterations_def template_def
      sample_to_string_values)

section \<open>Runs of one handler\<close>

lemma drive_append: "drive P v (rs @ rs') out = drive P v rs' (drive P v rs out)"
  by (induction rs arbitrary: out) simp_all

lemma drive_Finished [simp]: "drive P v rs (Finished w) = Finished w"
  by (induction rs) simp_all

lemma bounded_while_loop [simp]: "bounded (while_loop iteration w)"
  by (simp add: while_loop_def)

lemma bounded_catch_inner [simp]: "bounded (catch_inner iteration m w)"
  by (simp add: catch_inner_def)

lemma bounded_for_tool_calls:
  "iteration < maxIterations \<Longrightarrow> bounded (for_tool_calls P v iteration c cs w)"
proof (induction cs arbitrary: w)
  case Nil
  then show ?case by simp
next
  case (Cons toolCall rest)
  then show ?case
    by (simp split: sum.split jsval.split sql_call.split
             add: Let_def for_tool_calls.simps(2))
qed

lemma bounded_on_sql:
  "iteration < maxIterations \<Longrightarrow> bounded (on_sql P v iteration c toolCall rest r w)"
  by (simp add: on_sql_def bounded_for_tool_calls)

lemma bounded_on_completion:
  "iteration < maxIterations \<Longrightarrow> bounded (on_completion P v iteration r w)"
  by (simp add: on_completion_def bounded_for_tool_calls Let_def
           split: completion_result.split option.split list.split)

lemma bounded_resume:
  "iteration_of t < maxIterations \<Longrightarrow> resume P v t r w = Some out \<Longrightarrow> bounded out"
  by (cases "(P, v, t, r, w)" rule: resume.cases)
     (auto simp: bounded_on_sql bounded_on_completion)

lemma bounded_feed: "bounded out \<Longrightarrow> bounded (feed P v r out)"
  by (cases out) (auto split: option.splits dest: bounded_resume)

lemma bounded_drive: "bounded out \<Longrightarrow> bounded (drive P v rs out)"
  by (induction rs arbitrary: out) (simp_all add: bounded_feed)

lemma bounded_on_message [simp]: "bounded (on_message P v event_data w)"
  by (simp add: on_message_def Let_def split: sum.split variant.split)

text \<open>
  C7. Whenever the handler of a user message waits for the completion backend and the
  exchange fails (it throws, or the status is not ok), the handler sends one error frame,
  clears \<open>processing\<close> and returns: the history and both request logs are as they were when
  the request was issued, and whatever arrives afterwards changes nothing.
\<close>

theorem completion_failure_ends_loop:
  assumes "drive P v rs (on_message P v event_data w0) = Suspended (Await_Completion iteration) w"
    and "failure_message v r = Some m"
  shows "drive P v (rs @ Completion r # rs') (on_message P v event_data w0) =
           Finished (w\<lparr>sent := sent w @ [Error (''DeepSeek API error: '' @ m)],
                       processing := False\<rparr>)"
proof -
  have "bounded (drive P v rs (on_message P v event_data w0))"
    by (simp add: bounded_drive)
  with assms(1) have below: "iteration < maxIterations"
    by simp
  from assms(2) have "on_completion P v iteration r w = catch_inner iteration m w"
    by (auto simp: failure_message_def on_completion_def split: completion_result.splits)
  with below have "feed P v (Completion r) (Suspended (Await_Completion iteration) w) =
      Finished (w\<lparr>sent := sent w @ [Error (''DeepSeek API error: '' @ m)],
                  processing := False\<rparr>)"
    by (simp add: catch_inner_def after_loop_def send_def)
  with assms(1) show ?thesis
    by (simp add: drive_append)
qed


theorem completion_failure_ends_loop_witness:
  \<open>drive sample Index_js [Completion (Completion_Status 500 ''Internal Server Error'')]
     (on_message sample Index_js ''{"message":"list all packages"}'' idle) =
   Finished (started\<lparr>sent := [Progress ''You: list all packages'',
                               Error ''DeepSeek API error: DeepSeek API error 500''],
                      processing := False\<rparr>)\<close>
proof -
  have d: \<open>drive sample Index_js [] (on_message sample Index_js ''{"message":"list all packages"}'' idle) =
      Suspended (Await_Completion 0) started\<close>
    by (simp add: first_message_starts)
  have f: "failure_message Index_js (Completion_Status 500 ''Internal Server Error'') =
      Some ''DeepSeek API error 500''"
    by (simp add: failure_message_def status_message_def show_nat.simps)
  have "sent started = [Progress ''You: list all packages'']"
    by (simp add: started_def)
  with completion_failure_ends_loop [OF d f, of "[]"] show ?thesis
    by simp
qed

section \<open>The tool dispatcher\<close>

lemma state_of_while_loop [simp]:
  "messages (state_of (while_loop iteration w)) = messages w"
  "sql_requests (state_of (while_loop iteration w)) = sql_requests w"
  "sent (state_of (while_loop iteration w)) =
     (if iteration < maxIterations then sent w
      else sent w @ [Error ''Reached maximum function call limit.''])"
  by (simp_all add: while_loop_def after_loop_def send_def)

text \<open>
  C4 (as amended). A call named \<open>run_sql_query\<close> whose query is a non-empty string that,
  upper-cased by \<open>toUpperCase()\<close>, does not contain SELECT gets the progress frame and then
  \<open>{error: "run_sql_query is only for SELECT queries."}\<close>, and the rest of the batch is
  abandoned; likewise a call named \<open>run_sql_mutation\<close> whose non-empty query, upper-cased,
  has none of INSERT, UPDATE, DELETE. In both cases, and also when the query is the empty
  string (which is reported as a missing query instead), no request goes to the
  data-access backend and no tool message is appended.
\<close>

theorem policy_violation_rejected:
  assumes "json_parse P (function_arguments toolCall) = Inr agrs"
    and "get_prop agrs ''query'' = Inr (JStr q)"
  shows
    "(q \<noteq> [] \<and> function_name toolCall = ''run_sql_query'' \<and>
      \<not> includes_str (toUpperCase P q) ''SELECT'' \<longrightarrow>
        for_tool_calls P v iteration c (toolCall # rest) w =
          while_loop (Suc iteration)
            (w\<lparr>sent := sent w @
                   [Progress (progress_text v c ''run_sql_query'' q),
                    Error ''run_sql_query is only for SELECT queries.'']\<rparr>)) \<and>
     (q \<noteq> [] \<and> function_name toolCall = ''run_sql_mutation'' \<and>
      \<not> (includes_str (toUpperCase P q) ''INSERT'' \<or>
         includes_str (toUpperCase P q) ''UPDATE'' \<or>
         includes_str (toUpperCase P q) ''DELETE'') \<longrightarrow>
        for_tool_calls P v iteration c (toolCall # rest) w =
          while_loop (Suc iteration)
            (w\<lparr>sent := sent w @
                   [Progress (progress_text v c ''run_sql_mutation'' q),
                    Error ''run_sql_mutation is only for INSERT, UPDATE, DELETE queries.'']\<rparr>)) \<and>
     (q = [] \<longrightarrow>
        for_tool_calls P v iteration c (toolCall # rest) w =
          while_loop (Suc iteration)
            (w\<lparr>sent := sent w @ [Error ''Missing query parameter.'']\<rparr>)) \<and>
     ((function_name toolCall = ''run_sql_query'' \<and>
       \<not> includes_str (toUpperCase P q) ''SELECT'') \<or>
      (function_name toolCall = ''run_sql_mutation'' \<and>
       \<not> (includes_str (toUpperCase P q) ''INSERT'' \<or>
          includes_str (toUpperCase P q) ''UPDATE'' \<or>
          includes_str (toUpperCase P q) ''DELETE'')) \<longrightarrow>
        sql_requests (state_of (for_tool_calls P v iteration c (toolCall # rest) w)) =
          sql_requests w \<and>
        messages (state_of (for_tool_calls P v iteration c (toolCall # rest) w)) =
          messages w)"
  using assms
  by (cases "q = []")
     (simp_all add: for_tool_calls.simps(2) description_string send_def Let_def)

theorem policy_violation_rejected_witness:
  "sent (state_of (for_tool_calls sample Index_js 0 None [drop_call, select_call]
                     (push (Assistant \<lparr>content = None, tool_calls = Some [drop_call, select_call]\<rparr>)
                        started))) =
     [Progress ''You: list all packages'', Progress ''Querying data...'',
      Error ''run_sql_query is only for SELECT queries.''] \<and>
   sql_requests (state_of (for_tool_calls sample Index_js 0 None [drop_call, select_call]
                     (push (Assistant \<lparr>content = None, tool_calls = Some [drop_call, select_call]\<rparr>)
                        started))) = [] \<and>
   sent (state_of (for_tool_calls sample Index_js 0 None [misnamed_call]
                     (push (Assistant \<lparr>content = None, tool_calls = Some [misnamed_call]\<rparr>)
                        started))) =
     [Progress ''You: list all packages'', Progress ''Updating data...'',
      Error ''run_sql_mutation is only for INSERT, UPDATE, DELETE queries.''] \<and>
   sql_requests (state_of (for_tool_calls sample Index_js 0 None [misnamed_call]
                     (push (Assistant \<lparr>content = None, tool_calls = Some [misnamed_call]\<rparr>)
                        started))) = [] \<and>
   sent (state_of (for_tool_calls sample Index_js 0 None [empty_query_call]
                     (push (Assistant empty_query_turn) started))) =
     [Progress ''You: list all packages'', Error ''Missing query parameter.'']"
proof -
  have p1: "json_parse sample (function_arguments drop_call) =
      Inr (JObj [(''query'', JStr ''DROP TABLE packages'')])"
    by (simp add: drop_call_def sample_parse_arguments)
  have p2: "json_parse sample (function_arguments misnamed_call) =
      Inr (JObj [(''query'', JStr ''SELECT * FROM packages'')])"
    by (simp add: misnamed_call_def sample_parse_arguments)
  have p3: "json_parse sample (function_arguments empty_query_call) =
      Inr (JObj [(''query'', JStr [])])"
    by (simp add: empty_query_call_def sample_parse_arguments)
  have g: "get_prop (JObj [(''query'', JStr q)]) ''query'' = Inr (JStr q)" for q
    by simp
  have k1: "\<not> includes_str (toUpperCase sample ''DROP TABLE packages'') ''SELECT''"
    by code_simp
  have k2: "\<not> includes_str (toUpperCase sample ''SELECT * FROM packages'') ''INSERT''"
      "\<not> includes_str (toUpperCase sample ''SELECT * FROM packages'') ''UPDATE''"
      "\<not> includes_str (toUpperCase sample ''SELECT * FROM packages'') ''DELETE''"
    by code_simp+
  have n: "function_name drop_call = ''run_sql_query''"
      "function_name misnamed_call = ''run_sql_mutation''"
    by (simp_all add: drop_call_def misnamed_call_def)
  have s: "sent started = [Progress ''You: list all packages'']" "sql_requests started = []"
    by (simp_all add: started_def)
  have d: "progress_text Index_js None ''run_sql_query'' x = ''Querying data...''"
      "progress_text Index_js None ''run_sql_mutation'' x = ''Updating data...''" for x
    by (simp_all add: progress_text_def)
  show ?thesis
    using policy_violation_rejected [OF p1 g, of Index_js 0 None "[select_call]"
            "push (Assistant \<lparr>content = None, tool_calls = Some [drop_call, select_call]\<rparr>) started"]
          policy_violation_rejected [OF p2 g, of Index_js 0 None "[]"
            "push (Assistant \<lparr>content = None, tool_calls = Some [misnamed_call]\<rparr>) started"]
          policy_violation_rejected [OF p3 g, of Index_js 0 None "[]"
            "push (Assistant empty_query_turn) started"]
          k1 k2 n s d
    by (simp add: maxIterations_def)
qed

text \<open>
  The claim as written promises the policy frame for every query string without SELECT.
  The empty string is such a query; the dispatcher reports it as missing and sends no
  policy frame.
\<close>

theorem empty_query_counterexample:
  "function_name empty_query_call = ''run_sql_query'' \<and>
   query_of sample empty_query_call = JStr [] \<and>
   \<not> includes_str (toUpperCase sample []) ''SELECT'' \<and>
   drive sample Index_js [Completion (Completion_Reply empty_query_turn)]
     (Suspended (Await_Completion 0) started) =
   Suspended (Await_Completion 1)
     (started\<lparr>messages := messages started @ [Assistant empty_query_turn],
               sent := [Progress ''You: list all packages'',
                        Error ''Missing query parameter.''],
               completion_requests :=
                 [messages started, messages started @ [Assistant empty_query_turn]]\<rparr>)"
  by code_simp

text \<open>
  Upper-casing is that of the runtime: a query that begins with the character U+017F
  followed by \<open>elect\<close> contains SELECT once upper-cased, passes the test of
  \<open>run_sql_query\<close> and is posted to the read endpoint.
\<close>

lemma long_s_query_posted:
  "function_name long_s_call = ''run_sql_query'' \<and>
   query_of sample long_s_call = JStr long_s_select \<and>
   toUpperCase sample long_s_select = ''SELECT * FROM PACKAGES'' \<and>
   accepted sample long_s_call \<and>
   drive sample Index_js [Completion (Completion_Reply long_s_turn)]
     (Suspended (Await_Completion 0) started) =
   Suspended (Await_Sql 0 None long_s_call [])
     (started\<lparr>messages := messages started @ [Assistant long_s_turn],
               sent := [Progress ''You: list all packages'', Progress ''Querying data...''],
               sql_requests := [(Query_Endpoint, long_s_select)]\<rparr>)"
  by code_simp

lemma callSqlApi_posts:
  "includes_str (toUpperCase P q) ''SELECT'' \<or> includes_str (toUpperCase P q) ''INSERT'' \<or>
   includes_str (toUpperCase P q) ''UPDATE'' \<or> includes_str (toUpperCase P q) ''DELETE'' \<Longrightarrow>
   \<exists>url. callSqlApi P q = Posts url q"
  by (auto simp: callSqlApi_def Let_def)

lemma accepted_suspends:
  assumes "accepted P toolCall"
  shows "\<exists>url body. for_tool_calls P v iteration c (toolCall # rest) w =
           Suspended (Await_Sql iteration c toolCall rest)
             (w\<lparr>sent := sent w @ [progress_of P v c toolCall],
                 sql_requests := sql_requests w @ [(url, body)]\<rparr>)"
proof -
  from assms obtain agrs q where
    p: "json_parse P (function_arguments toolCall) = Inr agrs" and
    g: "get_prop agrs ''query'' = Inr (JStr q)" and
    n: "q \<noteq> []" and
    k: "if function_name toolCall = ''run_sql_query''
        then includes_str (toUpperCase P q) ''SELECT''
        else function_name toolCall = ''run_sql_mutation'' \<and>
             (includes_str (toUpperCase P q) ''INSERT'' \<or>
              includes_str (toUpperCase P q) ''UPDATE'' \<or>
              includes_str (toUpperCase P q) ''DELETE'')"
    by (auto simp: accepted_def split: sum.splits jsval.splits)
  from k obtain url where u: "callSqlApi P q = Posts url q"
    using callSqlApi_posts [of P q] by (auto split: if_splits)
  show ?thesis
  proof (cases "function_name toolCall = ''run_sql_query''")
    case True
    with p g n k u show ?thesis
      by (intro exI [of _ url] exI [of _ q])
         (simp add: for_tool_calls.simps(2) progress_of_def query_of_def send_def
            description_string Let_def)
  next
    case False
    with p g n k u show ?thesis
      by (intro exI [of _ url] exI [of _ q])
         (simp add: for_tool_calls.simps(2) progress_of_def query_of_def send_def
            description_string Let_def)
  qed
qed

lemma accepted_prefix_runs:
  assumes "\<forall>toolCall \<in> set pre. accepted P toolCall"
    and "length rs = length pre"
  shows "\<exists>w'. drive P v (map Sql rs) (for_tool_calls P v iteration c (pre @ tail) w) =
                 for_tool_calls P v iteration c tail w' \<and>
              sent w' = sent w @ map (progress_of P v c) pre \<and>
              messages w' =
                messages w @ map2 (\<lambda>toolCall r. Tool (call_id toolCall) (callSqlApi_result r)) pre rs \<and>
              length (sql_requests w') = length (sql_requests w) + length pre \<and>
              completion_requests w' = completion_requests w \<and>
              processing w' = processing w"
  using assms
proof (induction pre arbitrary: rs w)
  case Nil
  then show ?case by (intro exI [of _ w]) simp
next
  case (Cons toolCall pre)
  then obtain r rs' where rs: "rs = r # rs'" "length rs' = length pre"
    by (cases rs) auto
  from Cons.prems have a: "accepted P toolCall" and as: "\<forall>t \<in> set pre. accepted P t"
    by simp_all
  from accepted_suspends [OF a, of v iteration c "pre @ tail" w] obtain url body where
    s: "for_tool_calls P v iteration c (toolCall # pre @ tail) w =
          Suspended (Await_Sql iteration c toolCall (pre @ tail))
            (w\<lparr>sent := sent w @ [progress_of P v c toolCall],
                sql_requests := sql_requests w @ [(url, body)]\<rparr>)"
    by blast
  let ?w1 = "push (Tool (call_id toolCall) (callSqlApi_result r))
               (w\<lparr>sent := sent w @ [progress_of P v c toolCall],
                   sql_requests := sql_requests w @ [(url, body)]\<rparr>)"
  from Cons.IH [OF as rs(2), of ?w1] obtain w' where
    w': "drive P v (map Sql rs') (for_tool_calls P v iteration c (pre @ tail) ?w1) =
           for_tool_calls P v iteration c tail w'"
        "sent w' = sent ?w1 @ map (progress_of P v c) pre"
        "messages w' =
           messages ?w1 @ map2 (\<lambda>toolCall r. Tool (call_id toolCall) (callSqlApi_result r)) pre rs'"
        "length (sql_requests w') = length (sql_requests ?w1) + length pre"
        "completion_requests w' = completion_requests ?w1"
        "processing w' = processing ?w1"
    by blast
  have "drive P v (map Sql rs) (for_tool_calls P v iteration c ((toolCall # pre) @ tail) w) =
          for_tool_calls P v iteration c tail w'"
    using s w'(1) rs(1) by (simp add: on_sql_def)
  with w'(2-) rs(1) show ?case
    by (intro exI [of _ w']) (simp add: push_def)
qed


text \<open>
  C6 (as amended). When the first call of a batch that is not handed to the backend is one
  whose arguments are not parseable JSON (every call before it passes the checks and gets
  its tool message), the client receives \<open>{error: "Invalid tool call arguments."}\<close>, the
  calls after it are skipped (no progress frame, no tool message, no backend request for
  them), and the loop goes on: the counter is incremented and, below the ceiling, the next
  completion request is issued with the history as it then stands.
\<close>

theorem unparsable_arguments_abandon_batch:
  assumes "\<forall>toolCall \<in> set pre. accepted P toolCall"
    and "json_parse P (function_arguments bad) = Inl e"
    and "length rs = length pre"
    and "tool_calls messageResponse = Some (pre @ bad # rest)"
  shows "\<exists>w'. drive P v (Completion (Completion_Reply messageResponse) # map Sql rs)
                 (Suspended (Await_Completion iteration) w) = while_loop (Suc iteration) w' \<and>
              sent w' = sent w @ map (progress_of P v (content messageResponse)) pre @
                          [Error ''Invalid tool call arguments.''] \<and>
              messages w' =
                messages w @ Assistant messageResponse #
                  map2 (\<lambda>toolCall r. Tool (call_id toolCall) (callSqlApi_result r)) pre rs \<and>
              length (sql_requests w') = length (sql_requests w) + length pre \<and>
              completion_requests w' = completion_requests w \<and>
              processing w' = processing w \<and>
              (Suc iteration < maxIterations \<longrightarrow>
                 while_loop (Suc iteration) w' =
                   Suspended (Await_Completion (Suc iteration))
                     (w'\<lparr>completion_requests := completion_requests w' @ [messages w']\<rparr>))"
proof -
  let ?w1 = "push (Assistant messageResponse) w"
  from assms(4) have start:
    "on_completion P v iteration (Completion_Reply messageResponse) w =
       for_tool_calls P v iteration (content messageResponse) (pre @ bad # rest) ?w1"
    by (cases "pre @ bad # rest") (simp_all add: on_completion_def)
  from accepted_prefix_runs [OF assms(1) assms(3), of v iteration "content messageResponse"
      "bad # rest" ?w1]
  obtain w2 where
    w2: "drive P v (map Sql rs)
           (for_tool_calls P v iteration (content messageResponse) (pre @ bad # rest) ?w1) =
         for_tool_calls P v iteration (content messageResponse) (bad # rest) w2"
        "sent w2 = sent ?w1 @ map (progress_of P v (content messageResponse)) pre"
        "messages w2 =
           messages ?w1 @ map2 (\<lambda>toolCall r. Tool (call_id toolCall) (callSqlApi_result r)) pre rs"
        "length (sql_requests w2) = length (sql_requests ?w1) + length pre"
        "completion_requests w2 = completion_requests ?w1"
        "processing w2 = processing ?w1"
    by blast
  let ?w' = "send (Error ''Invalid tool call arguments.'') w2"
  from assms(2) have
    "for_tool_calls P v iteration (content messageResponse) (bad # rest) w2 =
       while_loop (Suc iteration) ?w'"
    by (simp add: for_tool_calls.simps(2))
  with start w2(1) have
    "drive P v (Completion (Completion_Reply messageResponse) # map Sql rs)
       (Suspended (Await_Completion iteration) w) = while_loop (Suc iteration) ?w'"
    by simp
  with w2(2-) show ?thesis
    by (intro exI [of _ ?w']) (simp add: send_def push_def while_loop_def)
qed

theorem unparsable_arguments_abandon_batch_witness:
  "\<exists>w'. drive sample Index_js
           [Completion (Completion_Reply
              \<lparr>content = None, tool_calls = Some [select_call, garbled_call, drop_call]\<rparr>),
            Sql (Sql_Data (JObj [(''rows'', JArr [])]))]
           (Suspended (Await_Completion 0) started) = while_loop 1 w' \<and>
        sent w' = [Progress ''You: list all packages'', Progress ''Querying data...'',
                   Error ''Invalid tool call arguments.''] \<and>
        messages w' =
          messages started @
            [Assistant \<lparr>content = None,
                        tool_calls = Some [select_call, garbled_call, drop_call]\<rparr>,
             Tool ''call_1'' (JObj [(''rows'', JArr [])])] \<and>
        length (sql_requests w') = 1 \<and>
        while_loop 1 w' =
          Suspended (Await_Completion 1)
            (w'\<lparr>completion_requests := completion_requests w' @ [messages w']\<rparr>)"
proof -
  have k: "includes_str (toUpperCase sample ''SELECT * FROM packages'') ''SELECT''"
    by code_simp
  have a: "\<forall>toolCall \<in> set [select_call]. accepted sample toolCall"
    using k by (simp add: accepted_def select_call_def sample_parse_arguments)
  have b: "json_parse sample (function_arguments garbled_call) = Inl ''Unexpected token''"
    by (simp add: garbled_call_def sample_parse_message)
  have l: "length [Sql_Data (JObj [(''rows'', JArr [])])] = length [select_call]"
    by simp
  have t: "tool_calls \<lparr>content = None, tool_calls = Some [select_call, garbled_call, drop_call]\<rparr>
      = Some ([select_call] @ garbled_call # [drop_call])"
    by simp
  have p: "progress_of sample Index_js None select_call = Progress ''Querying data...''"
    by (simp add: progress_of_def progress_text_def query_of_def select_call_def
        sample_parse_arguments)
  have s: "sent started = [Progress ''You: list all packages'']" "sql_requests started = []"
    by (simp_all add: started_def)
  have c: "call_id select_call = ''call_1''"
    by (simp add: select_call_def)
  from unparsable_arguments_abandon_batch [OF a b l t, of Index_js 0 started]
  show ?thesis
    by (simp add: p s c callSqlApi_result_def maxIterations_def) blast
qed

text \<open>
  The claim as written promises the frame for every batch that contains a call with
  unparseable arguments. When an earlier call of the batch is rejected, the batch is
  abandoned there and the frame never comes.
\<close>

theorem unparsable_arguments_counterexample:
  "json_parse sample (function_arguments garbled_call) = Inl ''Unexpected token'' \<and>
   drive sample Index_js
     [Completion (Completion_Reply
        \<lparr>content = None, tool_calls = Some [no_query_call, garbled_call]\<rparr>)]
     (Suspended (Await_Completion 0) started) =
   Suspended (Await_Completion 1)
     (started\<lparr>messages := messages started @
                  [Assistant \<lparr>content = None,
                              tool_calls = Some [no_query_call, garbled_call]\<rparr>],
               sent := [Progress ''You: list all packages'', Error ''Missing query parameter.''],
               completion_requests :=
                 [messages started,
                  messages started @
                    [Assistant \<lparr>content = None,
                                tool_calls = Some [no_query_call, garbled_call]\<rparr>]]\<rparr>)"
  by (simp add: garbled_call_def no_query_call_def sample_parse_message sample_parse_arguments
      on_completion_def for_tool_calls.simps(2) push_def send_def while_loop_def
      maxIterations_def started_def)


section \<open>The nominal turn\<close>

lemma includes_str_nonempty: "includes_str (toUpperCase P q) ''SELECT'' \<Longrightarrow> q \<noteq> []"
  by auto

text \<open>
  C9 (as amended). In the nominal turn (a user message while the session is idle, an
  assistant message with one \<open>run_sql_query\<close> call on a SELECT query, a result from the
  backend, then an assistant message without tool calls) the client observes, in
  \<open>index.js\<close>, two progress frames (the echo \<open>You: ...\<close> and the progress text of the tool
  call) followed by one response frame; in \<open>part_000\<close>, where the echo is commented out,
  one progress frame followed by one response frame.
\<close>

theorem nominal_turn_frames:
  assumes "json_parse P event_data = Inr data"
    and "get_prop data ''message'' = Inr (JStr text)"
    and "text \<noteq> []"
    and "\<not> processing w"
    and "function_name toolCall = ''run_sql_query''"
    and "json_parse P (function_arguments toolCall) = Inr agrs"
    and "get_prop agrs ''query'' = Inr (JStr q)"
    and "includes_str (toUpperCase P q) ''SELECT''"
    and "tool_calls final = None \<or> tool_calls final = Some []"
  shows "\<exists>w'. drive P v
                 [Completion (Completion_Reply \<lparr>content = c, tool_calls = Some [toolCall]\<rparr>),
                  Sql (Sql_Data rows),
                  Completion (Completion_Reply final)]
                 (on_message P v event_data w) = Finished w' \<and>
              sent w' =
                sent w @
                (case v of Index_js \<Rightarrow> [Progress (''You: '' @ text)] | Part_000 \<Rightarrow> []) @
                [Progress (progress_text v c ''run_sql_query'' q),
                 Response (content final)] \<and>
              messages w' =
                messages w @
                [User (JStr text),
                 Assistant \<lparr>content = c, tool_calls = Some [toolCall]\<rparr>,
                 Tool (call_id toolCall) rows,
                 Assistant final] \<and>
              sql_requests w' = sql_requests w @ [(Query_Endpoint, q)] \<and>
              length (completion_requests w') = length (completion_requests w) + 2 \<and>
              \<not> processing w'"
proof -
  from assms(8) have n: "q \<noteq> []"
    by (rule includes_str_nonempty)
  from assms(8) have r: "callSqlApi P q = Posts Query_Endpoint q"
    by (simp add: callSqlApi_def)
  show ?thesis
    using assms n r
    by (cases v)
       (auto simp: on_message_def while_loop_def maxIterations_def on_completion_def
          for_tool_calls.simps(2) on_sql_def callSqlApi_result_def after_loop_def
          description_string send_def push_def)
qed


theorem nominal_turn_frames_witness:
  \<open>(\<exists>w'. drive sample Index_js
          [Completion (Completion_Reply \<lparr>content = None, tool_calls = Some [select_call]\<rparr>),
           Sql (Sql_Data (JObj [(''rows'', JArr [])])),
           Completion (Completion_Reply \<lparr>content = Some ''Here they are.'', tool_calls = None\<rparr>)]
          (on_message sample Index_js ''{"message":"list all packages"}'' idle) = Finished w' \<and>
        sent w' = [Progress ''You: list all packages'', Progress ''Querying data...'',
                   Response (Some ''Here they are.'')]) \<and>
   (\<exists>w'. drive sample Part_000
          [Completion (Completion_Reply \<lparr>content = None, tool_calls = Some [select_call]\<rparr>),
           Sql (Sql_Data (JObj [(''rows'', JArr [])])),
           Completion (Completion_Reply \<lparr>content = Some ''Here they are.'', tool_calls = None\<rparr>)]
          (on_message sample Part_000 ''{"message":"list all packages"}'' idle) = Finished w' \<and>
        sent w' = [Progress ''Querying data...[SELECT * FROM packages]'',
                   Response (Some ''Here they are.'')])\<close>
proof -
  have g: "get_prop (JObj [(''message'', JStr ''list all packages'')]) ''message'' =
      Inr (JStr ''list all packages'')"
    by simp
  have t: "''list all packages'' \<noteq> []"
    by simp
  have i: "\<not> processing idle" "sent idle = []"
    by (simp_all add: idle_def open_session_def)
  have f: "function_name select_call = ''run_sql_query''"
    by (simp add: select_call_def)
  have p: "json_parse sample (function_arguments select_call) =
      Inr (JObj [(''query'', JStr ''SELECT * FROM packages'')])"
    by (simp add: select_call_def sample_parse_arguments)
  have q: "get_prop (JObj [(''query'', JStr ''SELECT * FROM packages'')]) ''query'' =
      Inr (JStr ''SELECT * FROM packages'')"
    by simp
  have k: "includes_str (toUpperCase sample ''SELECT * FROM packages'') ''SELECT''"
    by code_simp
  have e: "tool_calls \<lparr>content = Some ''Here they are.'', tool_calls = None\<rparr> = None \<or>
      tool_calls \<lparr>content = Some ''Here they are.'', tool_calls = None\<rparr> = Some []"
    by simp
  have d: "progress_text Index_js None ''run_sql_query'' ''SELECT * FROM packages'' =
      ''Querying data...''"
    "progress_text Part_000 None ''run_sql_query'' ''SELECT * FROM packages'' =
      ''Querying data...[SELECT * FROM packages]''"
    by (simp_all add: progress_text_def)
  show ?thesis
    using nominal_turn_frames [OF sample_parse_message(1) g t i(1) f p q k e,
            of Index_js None "JObj [(''rows'', JArr [])]"]
          nominal_turn_frames [OF sample_parse_message(1) g t i(1) f p q k e,
            of Part_000 None "JObj [(''rows'', JArr [])]"]
    by (simp add: d i(2)) blast
qed

text \<open>
  The claim as written counts one progress frame. In \<open>index.js\<close> the client receives the
  echo of its message as a first progress frame, then the progress frame of the tool
  call, then the response.
\<close>

theorem nominal_turn_counterexample:
  \<open>sent (state_of (drive sample Index_js
      [Completion (Completion_Reply \<lparr>content = None, tool_calls = Some [select_call]\<rparr>),
       Sql (Sql_Data (JObj [(''rows'', JArr [])])),
       Completion (Completion_Reply \<lparr>content = Some ''Here they are.'', tool_calls = None\<rparr>)]
      (on_message sample Index_js ''{"message":"list all packages"}'' idle))) =
   [Progress ''You: list all packages'', Progress ''Querying data...'',
    Response (Some ''Here they are.'')]\<close>
proof -
  have k: "includes_str (toUpperCase sample ''SELECT * FROM packages'') ''SELECT''"
    by code_simp
  then have r: "callSqlApi sample ''SELECT * FROM packages'' =
      Posts Query_Endpoint ''SELECT * FROM packages''"
    by (simp add: callSqlApi_def)
  show ?thesis
    using k r
    by (simp add: first_message_starts on_completion_def for_tool_calls.simps(2) select_call_def
        sample_parse_arguments description_string progress_text_def on_sql_def after_loop_def
        while_loop_def callSqlApi_result_def maxIterations_def send_def push_def started_def)
qed

section \<open>The iteration ceiling\<close>

lemma counted_while_loop:
  "iteration \<le> maxIterations \<Longrightarrow> length (completion_requests w) = base + iteration \<Longrightarrow>
   counted base (while_loop iteration w)"
  by (simp add: while_loop_def after_loop_def send_def)

lemma counted_catch_inner:
  "iteration < maxIterations \<Longrightarrow> length (completion_requests w) = base + Suc iteration \<Longrightarrow>
   counted base (catch_inner iteration m w)"
  by (simp add: catch_inner_def after_loop_def send_def)

lemma counted_for_tool_calls:
  "iteration < maxIterations \<Longrightarrow> length (completion_requests w) = base + Suc iteration \<Longrightarrow>
   counted base (for_tool_calls P v iteration c cs w)"
proof (induction cs arbitrary: w)
  case Nil
  then show ?case by (simp add: counted_while_loop)
next
  case (Cons toolCall rest)
  then show ?case
    by (simp split: sum.split jsval.split sql_call.split
             add: Let_def for_tool_calls.simps(2) counted_while_loop counted_catch_inner)
qed

lemma counted_on_sql:
  "iteration < maxIterations \<Longrightarrow> length (completion_requests w) = base + Suc iteration \<Longrightarrow>
   counted base (on_sql P v iteration c toolCall rest r w)"
  by (simp add: on_sql_def counted_for_tool_calls push_def)

lemma counted_on_completion:
  "iteration < maxIterations \<Longrightarrow> length (completion_requests w) = base + Suc iteration \<Longrightarrow>
   counted base (on_completion P v iteration r w)"
  by (simp add: on_completion_def counted_for_tool_calls counted_catch_inner Let_def
           after_loop_def send_def push_def
           split: completion_result.split option.split list.split)

lemma counted_feed: "counted base out \<Longrightarrow> counted base (feed P v r out)"
proof (cases out)
  case (Suspended t w)
  assume "counted base out"
  with Suspended show ?thesis
    by (cases "(P, v, t, r, w)" rule: resume.cases)
       (simp_all add: counted_on_completion counted_on_sql)
next
  case (Finished w)
  assume "counted base out"
  with Finished show ?thesis by simp
qed

lemma counted_drive: "counted base out \<Longrightarrow> counted base (drive P v rs out)"
  by (induction rs arbitrary: out) (simp_all add: counted_feed)

lemma counted_on_message:
  "counted (length (completion_requests w)) (on_message P v event_data w)"
  by (cases v)
     (simp_all add: on_message_def Let_def while_loop_def maxIterations_def send_def push_def
        catch_outer_def split: sum.split)

lemma counted_state_of:
  "counted base out \<Longrightarrow> length (completion_requests (state_of out)) \<le> base + maxIterations"
  by (cases out) simp_all


text \<open>
  The handler of a user message issues at most ten completion requests, whatever the
  backends answer; and a batch that is left by \<open>break\<close> or by its end in the tenth
  iteration is followed by the limit frame.
\<close>

lemma at_most_ten_requests:
  "length (completion_requests (state_of (drive P v rs (on_message P v event_data w))))
     \<le> length (completion_requests w) + 10"
proof -
  have "counted (length (completion_requests w)) (drive P v rs (on_message P v event_data w))"
    by (rule counted_drive) (rule counted_on_message)
  from counted_state_of [OF this] show ?thesis
    by (simp add: maxIterations_def)
qed

lemma ceiling_reached:
  "while_loop (Suc 9) w =
     Finished (w\<lparr>sent := sent w @ [Error ''Reached maximum function call limit.''],
                 processing := False\<rparr>)"
  by (simp add: while_loop_def after_loop_def send_def maxIterations_def)

text \<open>
  C1. The limit frame is missing when the dispatch of the tenth batch throws. In the
  first run below nine responses carry a call with unparseable arguments and the tenth a
  call of \<open>run_sql_query\<close> whose query is the number 5: \<open>query.toUpperCase\<close> is not a
  function, the \<open>catch\<close> of the loop body reports it as a completion error and leaves the
  loop with the counter at nine. Ten requests were issued, the tenth response carried a
  tool call, and the last frame is not the limit frame. In the second run the tenth call
  carries the same query under a name the worker does not know: that rejection is a
  \<open>break\<close>, the iteration is counted and the limit frame is sent.
\<close>

theorem tenth_batch_fault_skips_limit_frame:
  "tool_calls number_query_turn = Some [number_query_call] \<and>
   tenth_batch_faults = Finished (state_of tenth_batch_faults) \<and>
   length (completion_requests (state_of tenth_batch_faults)) = 10 \<and>
   \<not> processing (state_of tenth_batch_faults) \<and>
   sent (state_of tenth_batch_faults) =
     Progress ''You: list all packages'' #
     replicate 9 (Error ''Invalid tool call arguments.'') @
     [Progress ''Querying data...'',
      Error ''DeepSeek API error: query.toUpperCase is not a function''] \<and>
   tool_calls unknown_number_turn = Some [unknown_number_call] \<and>
   tenth_batch_breaks = Finished (state_of tenth_batch_breaks) \<and>
   length (completion_requests (state_of tenth_batch_breaks)) = 10 \<and>
   sent (state_of tenth_batch_breaks) =
     Progress ''You: list all packages'' #
     replicate 9 (Error ''Invalid tool call arguments.'') @
     [Progress ''Updating data...'',
      Error ''Unknown function: run_sql_count'',
      Error ''Reached maximum function call limit.'']"
  by code_simp

section \<open>The pairing of tool messages under interleaving\<close>

text \<open>
  C8. The pairing of tool messages with the assistant message before them does not hold
  in every reachable history. While the handler of a first message waits for the
  data-access backend, a frame that is not JSON reaches the \<open>catch\<close> around the handler,
  which clears \<open>processing\<close>; the next message is then accepted and its user message is
  pushed between the assistant message and the tool message of the first handler. When
  the second handler is answered first, the tool message follows an assistant message
  that carries no tool call at all.
\<close>

theorem interleaved_history_unpaired:
  "history_after overlap_events =
     Some [System ''You are a helpful assistant.'',
           User (JStr ''list all packages''),
           Assistant select_turn,
           User (JStr ''and the prices?''),
           Tool ''call_1'' (JObj [(''rows'', JArr [])])] \<and>
   \<not> paired [] [System ''You are a helpful assistant.'',
                User (JStr ''list all packages''),
                Assistant select_turn,
                User (JStr ''and the prices?''),
                Tool ''call_1'' (JObj [(''rows'', JArr [])])] \<and>
   history_after overtaking_events =
     Some [System ''You are a helpful assistant.'',
           User (JStr ''list all packages''),
           Assistant select_turn,
           User (JStr ''and the prices?''),
           Assistant plain_turn,
           Tool ''call_1'' (JObj [(''rows'', JArr [])])] \<and>
   \<not> paired [] [System ''You are a helpful assistant.'',
                User (JStr ''list all packages''),
                Assistant select_turn,
                User (JStr ''and the prices?''),
                Assistant plain_turn,
                Tool ''call_1'' (JObj [(''rows'', JArr [])])]"
  by code_simp

section \<open>The pairing of tool messages under mutual exclusion\<close>

lemma paired_batch_end: "paired batch ms \<longleftrightarrow> batch_end batch ms \<noteq> None"
  by (induction batch ms rule: paired.induct) simp_all

lemma batch_end_append:
  "batch_end batch (ms @ ms') =
     (case batch_end batch ms of None \<Rightarrow> None | Some b \<Rightarrow> batch_end b ms')"
  by (induction batch ms rule: batch_end.induct) simp_all

lemma outcome_ok_while_loop:
  "processing w \<Longrightarrow> paired [] (messages w) \<Longrightarrow> outcome_ok (while_loop iteration w)"
  by (simp add: while_loop_def after_loop_def)

lemma outcome_ok_catch_inner:
  "paired [] (messages w) \<Longrightarrow> outcome_ok (catch_inner iteration m w)"
  by (simp add: catch_inner_def after_loop_def)

lemma outcome_ok_for_tool_calls:
  "processing w \<Longrightarrow> batch_end [] (messages w) = Some batch \<Longrightarrow>
   set (map call_id cs) \<subseteq> set batch \<Longrightarrow>
   outcome_ok (for_tool_calls P v iteration c cs w)"
proof (induction cs arbitrary: w)
  case Nil
  then show ?case
    by (simp add: outcome_ok_while_loop paired_batch_end)
next
  case (Cons toolCall rest)
  from Cons.prems have p: "paired [] (messages w)"
    by (simp add: paired_batch_end)
  have stop: "outcome_ok (while_loop (Suc iteration) w')"
    if "messages w' = messages w" "processing w'" for w'
    using that p by (intro outcome_ok_while_loop) simp_all
  have fault: "outcome_ok (catch_inner iteration m w')" if "messages w' = messages w" for m w'
    using that p by (intro outcome_ok_catch_inner) simp
  have more: "outcome_ok (for_tool_calls P v iteration c rest
                 (push (Tool (call_id toolCall) result) w'))"
    if "messages w' = messages w" "processing w'" for result w'
    using that Cons.prems
    by (intro Cons.IH) (simp_all add: batch_end_append)
  show ?case
    using Cons.prems
    by (simp add: for_tool_calls.simps(2) Let_def stop fault more
          split: sum.split jsval.split sql_call.split)
qed

lemma outcome_ok_on_sql:
  "processing w \<Longrightarrow> task_ok (Await_Sql iteration c toolCall rest) w \<Longrightarrow>
   outcome_ok (on_sql P v iteration c toolCall rest r w)"
  unfolding on_sql_def
  by (rule outcome_ok_for_tool_calls [where batch = "the (batch_end [] (messages w))"])
     (auto simp: batch_end_append split: option.splits)

lemma outcome_ok_on_completion:
  "processing w \<Longrightarrow> paired [] (messages w) \<Longrightarrow>
   outcome_ok (on_completion P v iteration r w)"
proof (cases r)
  case (Completion_Reply messageResponse)
  assume a: "processing w" "paired [] (messages w)"
  then obtain b where b: "batch_end [] (messages w) = Some b"
    by (auto simp: paired_batch_end)
  let ?w1 = "push (Assistant messageResponse) w"
  from b have e: "batch_end [] (messages ?w1) = Some (ids_of messageResponse)"
    by (simp add: batch_end_append)
  then have p: "paired [] (messages ?w1)"
    by (simp add: paired_batch_end)
  show ?thesis
  proof (cases "tool_calls messageResponse")
    case None
    with Completion_Reply p show ?thesis
      by (simp add: on_completion_def after_loop_def Let_def)
  next
    case (Some cs)
    show ?thesis
    proof (cases cs)
      case Nil
      with Some Completion_Reply p show ?thesis
        by (simp add: on_completion_def after_loop_def Let_def)
    next
      case (Cons toolCall rest)
      have "outcome_ok (for_tool_calls P v iteration (content messageResponse) cs ?w1)"
        using a(1) e Some by (intro outcome_ok_for_tool_calls [OF _ e]) (simp_all add: ids_of_def)
      with Some Cons Completion_Reply show ?thesis
        by (simp add: on_completion_def)
    qed
  qed
qed (simp_all add: on_completion_def outcome_ok_catch_inner)

lemma outcome_ok_resume:
  "processing w \<Longrightarrow> task_ok t w \<Longrightarrow> resume P v t r w = Some out \<Longrightarrow> outcome_ok out"
  by (cases "(P, v, t, r, w)" rule: resume.cases)
     (auto simp: outcome_ok_on_sql outcome_ok_on_completion simp del: task_ok.simps(2))

lemma outcome_ok_on_message:
  "\<not> processing w \<Longrightarrow> paired [] (messages w) \<Longrightarrow> outcome_ok (on_message P v event_data w)"
proof -
  assume a: "\<not> processing w" "paired [] (messages w)"
  then obtain b where b: "batch_end [] (messages w) = Some b"
    by (auto simp: paired_batch_end)
  have start: "outcome_ok (while_loop 0 w')"
    if "processing w'" "messages w' = messages w @ [User m]" for w' m
    using that b by (intro outcome_ok_while_loop) (simp_all add: paired_batch_end batch_end_append)
  have echo: "paired [] (messages w @ [User m])" for m
    using b by (simp add: paired_batch_end batch_end_append)
  show ?thesis
    using a(1)
    by (cases v)
       (simp_all add: on_message_def catch_outer_def Let_def start echo a(2) split: sum.split)
qed

lemma on_message_while_processing:
  "processing w \<Longrightarrow> json_parse P event_data = Inr data \<Longrightarrow>
   get_prop data ''message'' = Inr m \<Longrightarrow>
   \<exists>f. on_message P v event_data w = Finished (send f w)"
  by (cases "truthy m") (auto simp: on_message_def)


lemma task_ok_messages: "messages w' = messages w \<Longrightarrow> task_ok t w' = task_ok t w"
  by (cases t) simp_all

lemma task_ok_paired: "task_ok t w \<Longrightarrow> paired [] (messages w)"
  by (cases t) (auto simp: paired_batch_end split: option.splits)

lemma system_ok_paired: "system_ok s \<Longrightarrow> paired [] (messages (session s))"
  by (auto simp: system_ok_def task_ok_paired split: if_splits)

lemma system_ok_inbound:
  assumes ok: "system_ok s" and g: "guarded P s (Inbound event_data)"
  shows "system_ok (settle (s\<lparr>tasks := tasks s @ [None]\<rparr>) (length (tasks s))
                      (on_message P v event_data (session s)))"
proof (cases "processing (session s)")
  case True
  with g obtain data m where
    "json_parse P event_data = Inr data" "get_prop data ''message'' = Inr m"
    by (auto split: sum.splits)
  from on_message_while_processing [OF True this] obtain f where
    f: "on_message P v event_data (session s) = Finished (send f (session s))"
    by blast
  from ok True obtain i t where
    it: "i < length (tasks s)" "tasks s ! i = Some t" "task_ok t (session s)"
        "\<forall>j < length (tasks s). j \<noteq> i \<longrightarrow> tasks s ! j = None"
    by (auto simp: system_ok_def)
  have "task_ok t (send f (session s))"
    using it(3) by (simp add: task_ok_messages [of "send f (session s)" "session s"])
  with it True show ?thesis
    unfolding f settle_def system_ok_def
    by (auto simp: nth_append intro!: exI [of _ i] exI [of _ t])
next
  case False
  with ok have none: "\<forall>j < length (tasks s). tasks s ! j = None"
    and p: "paired [] (messages (session s))"
    by (simp_all add: system_ok_def)
  from outcome_ok_on_message [OF False p, of P v event_data] none show ?thesis
    by (cases "on_message P v event_data (session s)")
       (auto simp: settle_def system_ok_def nth_append
             intro!: exI [of _ "length (tasks s)"])
qed

lemma system_ok_arrives:
  assumes ok: "system_ok s" and st: "step P v s (Arrives i r) = Some s'"
  shows "system_ok s'"
proof -
  from st obtain t out where
    i: "i < length (tasks s)" "tasks s ! i = Some t" and
    r: "resume P v t r (session s) = Some out" and
    s': "s' = settle s i out"
    by (auto split: if_splits option.splits)
  from ok i have busy: "processing (session s)"
    by (auto simp: system_ok_def split: if_splits)
  with ok obtain i0 t0 where
    i0: "i0 < length (tasks s)" "tasks s ! i0 = Some t0" "task_ok t0 (session s)"
        "\<forall>j < length (tasks s). j \<noteq> i0 \<longrightarrow> tasks s ! j = None"
    by (auto simp: system_ok_def)
  from i i0(4) have "i = i0"
    by (cases "i = i0") auto
  with i i0 have t: "task_ok t (session s)"
    and others: "\<forall>j < length (tasks s). j \<noteq> i \<longrightarrow> tasks s ! j = None"
    by simp_all
  from outcome_ok_resume [OF busy t r] i others show ?thesis
    unfolding s'
    by (cases out)
       (auto simp: settle_def system_ok_def nth_list_update intro!: exI [of _ i])
qed

lemma system_ok_step:
  "system_ok s \<Longrightarrow> guarded P s e \<Longrightarrow> step P v s e = Some s' \<Longrightarrow> system_ok s'"
  by (cases e) (auto simp: system_ok_inbound system_ok_arrives simp del: step.simps(2) guarded.simps)

lemma system_ok_run:
  "system_ok s \<Longrightarrow> guarded_run P v s es \<Longrightarrow> run P v s es = Some s' \<Longrightarrow> system_ok s'"
proof (induction es arbitrary: s)
  case Nil
  then show ?case by simp
next
  case (Cons e es)
  then show ?case
    by (auto split: option.splits dest: system_ok_step)
qed

lemma system_ok_open: "system_ok \<lparr>session = open_session P v SYSTEM_PROMPT, tasks = []\<rparr>"
  by (simp add: system_ok_def open_session_def)

text \<open>
  As long as no inbound frame reaches the \<open>catch\<close> around the handler while \<open>processing\<close>
  is set, the handlers of a connection exclude one another and every reachable history
  is paired, in whatever order frames and responses arrive.
\<close>

lemma guarded_runs_paired:
  assumes "guarded_run P v \<lparr>session = open_session P v SYSTEM_PROMPT, tasks = []\<rparr> es"
    and "run P v \<lparr>session = open_session P v SYSTEM_PROMPT, tasks = []\<rparr> es = Some s"
  shows "paired [] (messages (session s))"
  using system_ok_run [OF system_ok_open assms] by (rule system_ok_paired)


lemma guarded_run_example:
  \<open>guarded_run sample Index_js \<lparr>session = idle, tasks = []\<rparr>
     [Inbound ''{"message":"list all packages"}'',
      Arrives 0 (Completion (Completion_Reply select_turn)),
      Inbound ''{"message":"and the prices?"}'',
      Arrives 0 (Sql (Sql_Data (JObj [(''rows'', JArr [])]))),
      Arrives 0 (Completion (Completion_Reply plain_turn))] \<and>
   history_after
     [Inbound ''{"message":"list all packages"}'',
      Arrives 0 (Completion (Completion_Reply select_turn)),
      Inbound ''{"message":"and the prices?"}'',
      Arrives 0 (Sql (Sql_Data (JObj [(''rows'', JArr [])]))),
      Arrives 0 (Completion (Completion_Reply plain_turn))] =
     Some [System ''You are a helpful assistant.'',
           User (JStr ''list all packages''),
           Assistant select_turn,
           Tool ''call_1'' (JObj [(''rows'', JArr [])]),
           Assistant plain_turn] \<and>
   \<not> guarded_run sample Index_js \<lparr>session = idle, tasks = []\<rparr> overlap_events\<close>
  by code_simp

end
